theory Spec2Isabelle
  imports Main "HOL-Library.Word" "HOL-Library.Signed_Division"
begin

section \<open>The start-round subround of the BLS consensus (consensus/spos/bls/subroundStartRound.go)\<close>

text \<open>
  The Go source drives one phase of a round-based consensus: \<open>doStartRoundJob\<close> resets the
  shared consensus state, \<open>doStartRoundConsensusCheck\<close> initialises the round through
  \<open>initCurrentRound\<close>, and \<open>changeEpoch\<close> recomputes the eligible validators at an epoch
  start. The functions are embedded as state transformers on a record of the fields they
  read and write. Everything the subround reaches through the interfaces of
  \<open>ConsensusCoreHandler\<close> (round clock, chain, nodes coordinator, multi signer, bootstrapper)
  is a field of the record \<open>collaborators\<close>: the answers those components give while one
  function of the subround runs. Logging is not modelled.
\<close>

subsection \<open>Machine types\<close>

type_synonym int64 = "64 word"
type_synonym uint64 = "64 word"
type_synonym uint32 = "32 word"
type_synonym uint16 = "16 word"

text \<open>
  \<open>time.Duration\<close> is an \<open>int64\<close> count of nanoseconds. A \<open>time.Time\<close> is kept as the
  number of nanoseconds since the Unix epoch. Go's \<open>int\<close> (32 or 64 bits wide,
  depending on the platform) is an \<open>int\<close> here and every conversion to a sized type is
  written out with \<open>word_of_int\<close>, which keeps the low bits as the Go conversion does.
  A Go \<open>string\<close> and a \<open>[]byte\<close> are both byte sequences, so both are \<open>string\<close>
  (a list of 8-bit characters) and \<open>string(pubKey)\<close> is the identity.
\<close>

type_synonym Duration = "64 word"
type_synonym Time = int

definition Unix :: "Time \<Rightarrow> int64" where
  "Unix t = word_of_int (t div 1000000000)"

text \<open>Go's \<open>/\<close> on signed integers truncates towards zero.\<close>

definition int64_div :: "int64 \<Rightarrow> int64 \<Rightarrow> int64" where
  "int64_div a b = word_of_int (sint a sdiv sint b)"

subsection \<open>Errors, statuses, metrics\<close>

datatype error =
    ErrNilSubround
  | ErrNilConsensusState
  | ErrNilHeader
  | ErrEmptyConsensusGroup
  | ErrNotFoundInConsensus
  | ErrCollaborator string

datatype SubroundStatus = SsNotFinished | SsFinished

text \<open>The keys of the status handler that the subround writes (constants of package core).\<close>

datatype metric =
    MetricConsensusRoundState
  | MetricConsensusState
  | MetricCountLeader
  | MetricCountConsensus

subsection \<open>Headers, round information, the indexer\<close>

record HeaderHandler =
  GetRandSeed :: string
  GetEpoch :: uint32

record RoundInfo =
  Index :: uint64
  SignersIndexes :: "uint64 list"
  BlockWasProposed :: bool
  ShardId :: uint32
  Timestamp :: Duration

text \<open>
  An \<open>indexer.Indexer\<close> is seen by the subround only through \<open>IsNilIndexer\<close> and
  \<open>SaveRoundInfo\<close>; the record holds the answer of the capability query.
\<close>

record Indexer =
  IsNilIndexer :: bool

text \<open>
  Modelled from the spec: \<open>indexer.NewNilIndexer\<close> is not part of the sources at hand. The
  spec describes the default sink as a no-op implementation that is recognised by its
  "is no-op" capability query, so the query answers true.
\<close>

definition NewNilIndexer :: Indexer where
  "NewNilIndexer = \<lparr>IsNilIndexer = True\<rparr>"

subsection \<open>Effects\<close>

text \<open>
  Calls that leave the subround and matter to the contract are appended to a log, in the
  order in which the code makes them. \<open>GoSaveRoundInfo\<close> and \<open>GoExecuteStoredMessages\<close>
  are the two \<open>go\<close> statements: the log records that the task was spawned.
\<close>

datatype event =
    CallGetNextConsensusGroup string uint64 uint32 uint32
  | CallMultiSignerReset "string list" uint16
  | CallRemainingTime Time Duration
  | GoSaveRoundInfo RoundInfo
  | GoExecuteStoredMessages

subsection \<open>State\<close>

text \<open>
  \<open>subroundStartRound\<close> embeds \<open>*spos.Subround\<close>, which embeds \<open>*spos.ConsensusState\<close>;
  Go promotes the embedded fields, and the record \<open>Subround\<close> lists the promoted fields
  that the file uses. \<open>stringValues\<close> and \<open>counters\<close> are the contents of the
  \<open>AppStatusHandler\<close>, \<open>calls\<close> is the log of outgoing calls. \<open>Extend\<close> and
  \<open>executeStoredMessages\<close> are the two func values that the constructor stores.
\<close>

text \<open>
  A Go func value is nil or a function. What a stored function does when it runs lies
  outside the file, so only this distinction is kept.
\<close>

datatype funcValue = NilFunc | Func

record Subround =
  RoundIndex :: int64
  RoundTimeStamp :: Time
  RoundCanceled :: bool
  consensusGroup :: "string list"
  selfPubKey :: string
  eligibleList :: "string set"
  status :: "int \<Rightarrow> SubroundStatus"
  current :: int
  stringValues :: "metric \<Rightarrow> string"
  counters :: "metric \<Rightarrow> nat"
  calls :: "event list"
  Extend :: funcValue

record subroundStartRound = Subround +
  processingThresholdPercentage :: int
  executeStoredMessages :: funcValue
  indexer :: "Indexer option"

record collaborators =
  ShouldSync :: bool
  RounderIndex :: int64
  RounderTimeStamp :: Time
  TimeDuration :: Duration
  RemainingTime :: "Time \<Rightarrow> Duration \<Rightarrow> Duration"
  GetCurrentBlockHeader :: "HeaderHandler option"
  GetGenesisHeader :: "HeaderHandler option"
  SelfId :: uint32
  GetNextConsensusGroup :: "string \<Rightarrow> uint64 \<Rightarrow> uint32 \<Rightarrow> uint32 \<Rightarrow> error + string list"
  GetValidatorsIndexes :: "string list \<Rightarrow> uint32 \<Rightarrow> error + uint64 list"
  GetAllValidatorsPublicKeys :: "uint32 \<Rightarrow> error + (uint32 \<rightharpoonup> string list)"
  MultiSignerReset :: "string list \<Rightarrow> uint16 \<Rightarrow> error option"
  notFoundIndex :: int

text \<open>
  \<open>GetNextConsensusGroup\<close> stands for the method of \<open>ConsensusState\<close> of that name, which
  wraps the nodes coordinator: the spec gives its contract as
  \<open>next_consensus_group(seed, round_index, shard_id, epoch) -> (ordered validators, error)\<close>.
  \<open>notFoundIndex\<close> is the integer that \<open>SelfConsensusGroupIndex\<close> returns next to its
  error; neither the file nor the spec fixes it, so it is a parameter.
\<close>

subsection \<open>Accessors of the embedded consensus state\<close>

definition SetStringValue :: "metric \<Rightarrow> string \<Rightarrow> 'a Subround_scheme \<Rightarrow> 'a Subround_scheme" where
  "SetStringValue k v sr = sr\<lparr>stringValues := (stringValues sr)(k := v)\<rparr>"

definition Increment :: "metric \<Rightarrow> 'a Subround_scheme \<Rightarrow> 'a Subround_scheme" where
  "Increment k sr = sr\<lparr>counters := (counters sr)(k := Suc (counters sr k))\<rparr>"

definition record_call :: "event \<Rightarrow> 'a Subround_scheme \<Rightarrow> 'a Subround_scheme" where
  "record_call e sr = sr\<lparr>calls := calls sr @ [e]\<rparr>"

text \<open>
  Modelled from the spec: \<open>ResetConsensusState\<close> belongs to package spos, which is not part
  of the sources at hand. The spec: "\<open>reset_for_new_round()\<close>: clears group, leader,
  cancellation flag, and all per-subround statuses". The leader is the head of the group
  and has no field of its own.
\<close>

definition ResetConsensusState :: "'a Subround_scheme \<Rightarrow> 'a Subround_scheme" where
  "ResetConsensusState sr =
     sr\<lparr>RoundCanceled := False, consensusGroup := [], status := (\<lambda>_. SsNotFinished)\<rparr>"

text \<open>
  Modelled from the spec: \<open>IsSubroundFinished\<close> (package spos) is the spec's
  \<open>is_subround_finished(id)\<close> of the per-phase completion tracking, with the statuses
  \<open>NotFinished\<close> and \<open>Finished\<close>.
\<close>

definition IsSubroundFinished :: "'a Subround_scheme \<Rightarrow> int \<Rightarrow> bool" where
  "IsSubroundFinished sr subroundId = (status sr subroundId = SsFinished)"

text \<open>
  Modelled from the spec: \<open>SetStatus\<close> (package spos) is the spec's
  \<open>set_status(id, status)\<close>; it stores the status of one subround.
\<close>

definition SetStatus :: "int \<Rightarrow> SubroundStatus \<Rightarrow> 'a Subround_scheme \<Rightarrow> 'a Subround_scheme" where
  "SetStatus subroundId s sr = sr\<lparr>status := (status sr)(subroundId := s)\<rparr>"

text \<open>
  Modelled from the spec: \<open>SetConsensusGroup\<close> (package spos) is the spec's
  \<open>set_consensus_group(group)\<close>: it stores the ordered group.
\<close>

definition SetConsensusGroup :: "string list \<Rightarrow> 'a Subround_scheme \<Rightarrow> 'a Subround_scheme" where
  "SetConsensusGroup grp sr = sr\<lparr>consensusGroup := grp\<rparr>"

text \<open>
  Modelled from the spec: \<open>GetLeader\<close> (package spos) is not part of the sources at hand.
  The spec: the first element of the group is the leader, and an empty group is a failure
  that cancels the round ("Failure (derivation error, empty group, multi-signature
  re-keying failure) sets cancellation and stops the round").
\<close>

definition GetLeader :: "'a Subround_scheme \<Rightarrow> error + string" where
  "GetLeader sr =
     (case consensusGroup sr of
        [] \<Rightarrow> Inl ErrEmptyConsensusGroup
      | leader # _ \<Rightarrow> Inr leader)"

text \<open>
  Modelled from the spec: \<open>ConsensusGroupIndex\<close> (package spos) is not part of the sources
  at hand. It is the search behind \<open>SelfConsensusGroupIndex\<close>: the position of a public
  key in the ordered group, counted from 0, if the key is a member.
\<close>

fun ConsensusGroupIndex :: "string \<Rightarrow> string list \<Rightarrow> nat option" where
  "ConsensusGroupIndex pubKey [] = None"
| "ConsensusGroupIndex pubKey (pk # rest) =
     (if pk = pubKey then Some 0 else map_option Suc (ConsensusGroupIndex pubKey rest))"

text \<open>
  Modelled from the spec: \<open>SelfConsensusGroupIndex\<close> (package spos) is not part of the
  sources at hand. The spec: "returns the local validator's position or a "not a member"
  error; never mutates state". A Go function with the result type \<open>(int, error)\<close> returns
  an integer in both cases; with the error it is the parameter \<open>notFound\<close>.
\<close>

definition SelfConsensusGroupIndex :: "int \<Rightarrow> 'a Subround_scheme \<Rightarrow> int \<times> error option" where
  "SelfConsensusGroupIndex notFound sr =
     (case ConsensusGroupIndex (selfPubKey sr) (consensusGroup sr) of
        None \<Rightarrow> (notFound, Some ErrNotFoundInConsensus)
      | Some i \<Rightarrow> (int i, None))"

text \<open>
  Modelled from the spec: \<open>SetEligibleList\<close> (package spos) stores the eligible set of the
  local shard ("set the EligibleSet for the shard to their union").
\<close>

definition SetEligibleList :: "string set \<Rightarrow> 'a Subround_scheme \<Rightarrow> 'a Subround_scheme" where
  "SetEligibleList eligible sr = sr\<lparr>eligibleList := eligible\<rparr>"

subsection \<open>Construction\<close>

text \<open>
  \<open>checkNewSubroundStartRoundParams\<close>: a nil subround is refused; the remaining checks
  (nil consensus state, \<open>spos.ValidateConsensusCore\<close>) inspect parts that the record does
  not carry, and their verdict is the parameter \<open>validation\<close>. Neither \<open>extend\<close> nor
  \<open>executeStoredMessages\<close> is checked: the constructor stores them as they come, nil
  included, and installs the nil indexer. Its assignments to the function fields \<open>Job\<close>
  and \<open>Check\<close> and the registration with the epoch-start subscriber are what makes the
  functions below callable from outside; the datatype \<open>operation\<close> further down stands
  for them.
\<close>

definition checkNewSubroundStartRoundParams :: "Subround option \<Rightarrow> error option \<Rightarrow> error option" where
  "checkNewSubroundStartRoundParams baseSubround validation =
     (case baseSubround of
        None \<Rightarrow> Some ErrNilSubround
      | Some _ \<Rightarrow> validation)"

definition NewSubroundStartRound ::
    "Subround option \<Rightarrow> error option \<Rightarrow> funcValue \<Rightarrow> int \<Rightarrow> funcValue \<Rightarrow>
     error + subroundStartRound" where
  "NewSubroundStartRound baseSubround validation extendFn pct executeStoredMessagesFn =
     (case checkNewSubroundStartRoundParams baseSubround validation of
        Some err \<Rightarrow> Inl err
      | None \<Rightarrow>
          (case baseSubround of
             None \<Rightarrow> Inl ErrNilSubround
           | Some base \<Rightarrow>
               Inr ((Subround.extend base
                       (subroundStartRound.fields pct executeStoredMessagesFn
                          (Some NewNilIndexer)))
                    \<lparr>Extend := extendFn\<rparr>)))"

definition SetIndexer :: "Indexer option \<Rightarrow> subroundStartRound \<Rightarrow> subroundStartRound" where
  "SetIndexer ix sr = sr\<lparr>indexer := ix\<rparr>"

subsection \<open>Job and Check of the start phase\<close>

definition doStartRoundJob :: "collaborators \<Rightarrow> subroundStartRound \<Rightarrow> bool \<times> subroundStartRound" where
  "doStartRoundJob env sr =
     (True, (ResetConsensusState sr)\<lparr>RoundIndex := RounderIndex env,
                                     RoundTimeStamp := RounderTimeStamp env\<rparr>)"

definition generateNextConsensusGroup ::
    "collaborators \<Rightarrow> int64 \<Rightarrow> subroundStartRound \<Rightarrow> error option \<times> subroundStartRound" where
  "generateNextConsensusGroup env roundIndex sr =
     (case (case GetCurrentBlockHeader env of
              None \<Rightarrow> GetGenesisHeader env
            | Some h \<Rightarrow> Some h) of
        None \<Rightarrow> (Some ErrNilHeader, sr)
      | Some currentHeader \<Rightarrow>
          (let randomSeed = GetRandSeed currentHeader;
               shardId = SelfId env;
               sr1 = record_call (CallGetNextConsensusGroup randomSeed (RoundIndex sr) shardId
                                    (GetEpoch currentHeader)) sr
           in case GetNextConsensusGroup env randomSeed (RoundIndex sr) shardId
                     (GetEpoch currentHeader) of
                Inl err \<Rightarrow> (Some err, sr1)
              | Inr nextConsensusGroup \<Rightarrow> (None, SetConsensusGroup nextConsensusGroup sr1)))"

text \<open>
  \<open>indexRoundIfNeeded\<close> returns \<open>None\<close> where the Go code panics: with neither a current
  nor a genesis header, \<open>currentHeader.GetEpoch()\<close> is a call on a nil interface.
\<close>

definition indexRoundIfNeeded ::
    "collaborators \<Rightarrow> string list \<Rightarrow> subroundStartRound \<Rightarrow> subroundStartRound option" where
  "indexRoundIfNeeded env pubKeys sr =
     (case indexer sr of
        None \<Rightarrow> Some sr
      | Some ix \<Rightarrow>
          if IsNilIndexer ix then Some sr
          else
            (case (case GetCurrentBlockHeader env of
                     None \<Rightarrow> GetGenesisHeader env
                   | Some h \<Rightarrow> Some h) of
               None \<Rightarrow> None
             | Some currentHeader \<Rightarrow>
                 (let shardId = SelfId env
                  in case GetValidatorsIndexes env pubKeys (GetEpoch currentHeader) of
                       Inl err \<Rightarrow> Some sr
                     | Inr signersIndexes \<Rightarrow>
                         (let round = RounderIndex env;
                              roundInfo = \<lparr>Index = round,
                                           SignersIndexes = signersIndexes,
                                           BlockWasProposed = False,
                                           ShardId = shardId,
                                           Timestamp = Unix (RoundTimeStamp sr)\<rparr>
                          in Some (record_call (GoSaveRoundInfo roundInfo) sr)))))"

text \<open>
  The budget of the start phase, line 157:
  \<open>sr.Rounder().TimeDuration() * time.Duration(sr.processingThresholdPercentage) / 100\<close>.
  The product is an \<open>int64\<close> product and wraps.
\<close>

definition maxTime :: "Duration \<Rightarrow> int \<Rightarrow> Duration" where
  "maxTime timeDuration pct = int64_div (timeDuration * word_of_int pct) 100"

text \<open>
  \<open>initCurrentRound\<close> returns \<open>None\<close> where the Go code does not return: the panic of
  \<open>indexRoundIfNeeded\<close>, and line 171, \<open>go sr.executeStoredMessages()\<close>, where the Go
  runtime stops the process with "go of nil func value" when the stored function is nil.
  The status is set (line 168) before the spawn, so a nil function is met only after the
  phase was marked finished.
\<close>

definition initCurrentRound ::
    "collaborators \<Rightarrow> subroundStartRound \<Rightarrow> (bool \<times> subroundStartRound) option" where
  "initCurrentRound env sr =
     (if ShouldSync env then Some (False, sr)
      else
        (case generateNextConsensusGroup env (RounderIndex env)
                (SetStringValue MetricConsensusRoundState [] sr) of
           (Some err, sr1) \<Rightarrow> Some (False, sr1\<lparr>RoundCanceled := True\<rparr>)
         | (None, sr1) \<Rightarrow>
             (case GetLeader sr1 of
                Inl err \<Rightarrow> Some (False, sr1\<lparr>RoundCanceled := True\<rparr>)
              | Inr leader \<Rightarrow>
                  (let sr2 = (if leader = selfPubKey sr1
                              then SetStringValue MetricConsensusState ''proposer''
                                     (SetStringValue MetricConsensusRoundState ''proposed''
                                        (Increment MetricCountLeader sr1))
                              else sr1);
                       pubKeys = consensusGroup sr2
                   in case indexRoundIfNeeded env pubKeys sr2 of
                        None \<Rightarrow> None
                      | Some sr3 \<Rightarrow>
                          (let (selfIndex, err) = SelfConsensusGroupIndex (notFoundIndex env) sr3;
                               sr4 = (case err of
                                        Some _ \<Rightarrow>
                                          SetStringValue MetricConsensusState
                                            ''not in consensus group'' sr3
                                      | None \<Rightarrow>
                                          SetStringValue MetricConsensusState ''participant''
                                            (Increment MetricCountConsensus sr3));
                               sr5 = record_call
                                       (CallMultiSignerReset pubKeys (word_of_int selfIndex)) sr4
                           in case MultiSignerReset env pubKeys (word_of_int selfIndex) of
                                Some err \<Rightarrow> Some (False, sr5\<lparr>RoundCanceled := True\<rparr>)
                              | None \<Rightarrow>
                                  (let startTime = RoundTimeStamp sr5;
                                       budget = maxTime (TimeDuration env)
                                                  (processingThresholdPercentage sr5);
                                       sr6 = record_call (CallRemainingTime startTime budget) sr5
                                   in if sint (RemainingTime env startTime budget) < 0
                                      then Some (False, sr6\<lparr>RoundCanceled := True\<rparr>)
                                      else
                                        (case executeStoredMessages sr6 of
                                           NilFunc \<Rightarrow> None
                                         | Func \<Rightarrow>
                                             Some (True,
                                               record_call GoExecuteStoredMessages
                                                 (SetStatus (current sr6) SsFinished sr6)))))))))"

definition doStartRoundConsensusCheck ::
    "collaborators \<Rightarrow> subroundStartRound \<Rightarrow> (bool \<times> subroundStartRound) option" where
  "doStartRoundConsensusCheck env sr =
     (if RoundCanceled sr then Some (False, sr)
      else if IsSubroundFinished sr (current sr) then Some (True, sr)
      else
        (case initCurrentRound env sr of
           None \<Rightarrow> None
         | Some (True, sr') \<Rightarrow> Some (True, sr')
         | Some (False, sr') \<Rightarrow> Some (False, sr')))"

subsection \<open>Epoch start\<close>

text \<open>
  The two callbacks of the epoch-start subscription. The header they receive is a header,
  not nil. \<open>EpochStartPrepare\<close> only writes a log line.
\<close>

definition EpochStartPrepare :: "HeaderHandler \<Rightarrow> subroundStartRound \<Rightarrow> subroundStartRound" where
  "EpochStartPrepare metaHeader sr = sr"

text \<open>
  \<open>changeEpoch\<close>: the two \<open>range\<close> loops insert every key of the local shard into the map
  \<open>shardEligible\<close>, a \<open>map[string]struct{}\<close>, that is a set. Indexing a Go map at a
  missing key gives the nil slice; \<open>estimatedMapSize\<close> is only a capacity hint and has no
  effect on the contents.
\<close>

definition shardKeys :: "(uint32 \<rightharpoonup> string list) \<Rightarrow> uint32 \<Rightarrow> string list" where
  "shardKeys publicKeys shardId = (case publicKeys shardId of None \<Rightarrow> [] | Some ks \<Rightarrow> ks)"

definition changeEpoch :: "collaborators \<Rightarrow> HeaderHandler \<Rightarrow> subroundStartRound \<Rightarrow> subroundStartRound" where
  "changeEpoch env header sr =
     (case GetAllValidatorsPublicKeys env (GetEpoch header - 1) of
        Inl err \<Rightarrow> sr
      | Inr publicKeysPrevEpoch \<Rightarrow>
          (case GetAllValidatorsPublicKeys env (GetEpoch header) of
             Inl err \<Rightarrow> sr
           | Inr publicKeysNewEpoch \<Rightarrow>
               (let shardId = SelfId env;
                    shardEligible = fold insert (shardKeys publicKeysPrevEpoch shardId) {};
                    shardEligible = fold insert (shardKeys publicKeysNewEpoch shardId) shardEligible
                in SetEligibleList shardEligible sr)))"

definition EpochStartAction :: "collaborators \<Rightarrow> HeaderHandler \<Rightarrow> subroundStartRound \<Rightarrow> subroundStartRound" where
  "EpochStartAction env hdr sr = changeEpoch env hdr sr"

subsection \<open>The entry points as operations\<close>

text \<open>
  What the rest of the node can call on the subround: \<open>Job\<close> and \<open>Check\<close> through the
  function fields set by the constructor, the two epoch-start callbacks through the
  registered handler, and \<open>SetIndexer\<close>. Each operation meets the collaborators in the
  state they have at that moment, so a run is a list of pairs. \<open>None\<close> is a panic.
\<close>

datatype operation =
    Job
  | Check
  | EpochPrepare HeaderHandler
  | EpochAction HeaderHandler
  | InstallIndexer "Indexer option"

fun perform :: "collaborators \<Rightarrow> operation \<Rightarrow> subroundStartRound \<Rightarrow> subroundStartRound option" where
  "perform env Job sr = Some (snd (doStartRoundJob env sr))"
| "perform env Check sr = map_option snd (doStartRoundConsensusCheck env sr)"
| "perform env (EpochPrepare h) sr = Some (EpochStartPrepare h sr)"
| "perform env (EpochAction h) sr = Some (EpochStartAction env h sr)"
| "perform env (InstallIndexer ix) sr = Some (SetIndexer ix sr)"

fun run :: "(collaborators \<times> operation) list \<Rightarrow> subroundStartRound \<Rightarrow> subroundStartRound option" where
  "run [] sr = Some sr"
| "run ((env, op) # rest) sr =
     (case perform env op sr of None \<Rightarrow> None | Some sr' \<Rightarrow> run rest sr')"

subsection \<open>Observations on the log\<close>

fun isMultiSignerReset :: "event \<Rightarrow> bool" where
  "isMultiSignerReset (CallMultiSignerReset _ _) = True"
| "isMultiSignerReset _ = False"

fun isSaveRoundInfo :: "event \<Rightarrow> bool" where
  "isSaveRoundInfo (GoSaveRoundInfo _) = True"
| "isSaveRoundInfo _ = False"

text \<open>The guard of \<open>indexRoundIfNeeded\<close>: \<open>sr.indexer == nil || sr.indexer.IsNilIndexer()\<close>.\<close>

definition noRealIndexer :: "subroundStartRound \<Rightarrow> bool" where
  "noRealIndexer sr = (case indexer sr of None \<Rightarrow> True | Some ix \<Rightarrow> IsNilIndexer ix)"

subsection \<open>The blocks of \<open>initCurrentRound\<close>\<close>

text \<open>
  For the proofs the body of \<open>initCurrentRound\<close> is cut at its early returns: the budget
  check (lines 156 to 173), the membership lookup with the reset of the multi signer
  (lines 138 to 154) and the leader announcement with the indexing step (lines 122 to
  136). Lemma \<open>initCurrentRound_staged\<close> below shows that the three pieces, put together,
  are the function.
\<close>

definition budgetCheck :: "collaborators \<Rightarrow> subroundStartRound \<Rightarrow> (bool \<times> subroundStartRound) option" where
  "budgetCheck env sr5 =
     (let startTime = RoundTimeStamp sr5;
          budget = maxTime (TimeDuration env) (processingThresholdPercentage sr5);
          sr6 = record_call (CallRemainingTime startTime budget) sr5
      in if sint (RemainingTime env startTime budget) < 0
         then Some (False, sr6\<lparr>RoundCanceled := True\<rparr>)
         else
           (case executeStoredMessages sr6 of
              NilFunc \<Rightarrow> None
            | Func \<Rightarrow>
                Some (True,
                  record_call GoExecuteStoredMessages
                    (SetStatus (current sr6) SsFinished sr6))))"

definition resetStage ::
    "collaborators \<Rightarrow> string list \<Rightarrow> subroundStartRound \<Rightarrow> (bool \<times> subroundStartRound) option" where
  "resetStage env pubKeys sr3 =
     (let (selfIndex, err) = SelfConsensusGroupIndex (notFoundIndex env) sr3;
          sr4 = (case err of
                   Some _ \<Rightarrow> SetStringValue MetricConsensusState ''not in consensus group'' sr3
                 | None \<Rightarrow> SetStringValue MetricConsensusState ''participant''
                             (Increment MetricCountConsensus sr3));
          sr5 = record_call (CallMultiSignerReset pubKeys (word_of_int selfIndex)) sr4
      in case MultiSignerReset env pubKeys (word_of_int selfIndex) of
           Some err \<Rightarrow> Some (False, sr5\<lparr>RoundCanceled := True\<rparr>)
         | None \<Rightarrow> budgetCheck env sr5)"

definition leaderStage ::
    "collaborators \<Rightarrow> string \<Rightarrow> subroundStartRound \<Rightarrow> (bool \<times> subroundStartRound) option" where
  "leaderStage env leader sr1 =
     (let sr2 = (if leader = selfPubKey sr1
                 then SetStringValue MetricConsensusState ''proposer''
                        (SetStringValue MetricConsensusRoundState ''proposed''
                           (Increment MetricCountLeader sr1))
                 else sr1);
          pubKeys = consensusGroup sr2
      in case indexRoundIfNeeded env pubKeys sr2 of
           None \<Rightarrow> None
         | Some sr3 \<Rightarrow> resetStage env pubKeys sr3)"

subsection \<open>A concrete round\<close>

text \<open>
  Modelled from the spec: the round clock is a collaborator whose code is not part of the
  sources at hand. The spec: "Remaining time is computed as
  \<open>budget - elapsed_since(round.start_time)\<close>". The first argument is the current time.
\<close>

definition elapsedRemainingTime :: "Time \<Rightarrow> Time \<Rightarrow> Duration \<Rightarrow> Duration" where
  "elapsedRemainingTime currentTime startTime budget = budget - word_of_int (currentTime - startTime)"

definition scenario_header :: HeaderHandler where
  "scenario_header = \<lparr>GetRandSeed = ''seed of the current block'', GetEpoch = 7\<rparr>"

definition scenario_genesis :: HeaderHandler where
  "scenario_genesis = \<lparr>GetRandSeed = ''seed of genesis'', GetEpoch = 0\<rparr>"

text \<open>
  Round 42 starts at second 1000 and lasts 5 seconds; the selection answers with three
  validators; the validators of shard 0 are known for the epochs 6 and 7 only.
\<close>

definition scenario_env :: "Time \<Rightarrow> collaborators" where
  "scenario_env currentTime =
     \<lparr>ShouldSync = False,
      RounderIndex = 42,
      RounderTimeStamp = 1000000000000,
      TimeDuration = 5000000000,
      RemainingTime = elapsedRemainingTime currentTime,
      GetCurrentBlockHeader = Some scenario_header,
      GetGenesisHeader = Some scenario_genesis,
      SelfId = 0,
      GetNextConsensusGroup = (\<lambda>seed round shard epoch. Inr [''alice'', ''bob'', ''carol'']),
      GetValidatorsIndexes = (\<lambda>pubKeys epoch. Inr [0, 1, 2]),
      GetAllValidatorsPublicKeys =
        (\<lambda>epoch. if epoch = 6 then Inr [0 \<mapsto> [''alice'', ''bob'']]
                 else if epoch = 7 then Inr [0 \<mapsto> [''bob'', ''carol'']]
                 else Inl (ErrCollaborator ''unknown epoch'')),
      MultiSignerReset = (\<lambda>pubKeys selfIndex. None),
      notFoundIndex = 0\<rparr>"

definition scenario_sr :: subroundStartRound where
  "scenario_sr =
     \<lparr>RoundIndex = 42,
      RoundTimeStamp = 1000000000000,
      RoundCanceled = False,
      consensusGroup = [],
      selfPubKey = ''bob'',
      eligibleList = {''alice''},
      status = (\<lambda>_. SsNotFinished),
      current = 1,
      stringValues = (\<lambda>_. []),
      counters = (\<lambda>_. 0),
      calls = [],
      Extend = Func,
      processingThresholdPercentage = 25,
      executeStoredMessages = Func,
      indexer = Some NewNilIndexer\<rparr>"

text \<open>
  The base subround from which the constructor builds that state, the state the previous
  round left behind (canceled, with its own group and statuses), and a subround that was
  constructed with a nil \<open>executeStoredMessages\<close>.
\<close>

definition scenario_base :: Subround where
  "scenario_base =
     \<lparr>RoundIndex = 42,
      RoundTimeStamp = 1000000000000,
      RoundCanceled = False,
      consensusGroup = [],
      selfPubKey = ''bob'',
      eligibleList = {''alice''},
      status = (\<lambda>_. SsNotFinished),
      current = 1,
      stringValues = (\<lambda>_. []),
      counters = (\<lambda>_. 0),
      calls = [],
      Extend = NilFunc\<rparr>"

definition scenario_previous :: subroundStartRound where
  "scenario_previous =
     scenario_sr\<lparr>RoundIndex := 41,
                 RoundTimeStamp := 995000000000,
                 RoundCanceled := True,
                 consensusGroup := [''carol'', ''dave''],
                 status := (\<lambda>_. SsFinished)\<rparr>"

definition scenario_no_callback :: subroundStartRound where
  "scenario_no_callback = scenario_sr\<lparr>executeStoredMessages := NilFunc\<rparr>"

text \<open>Variations of the round: what one collaborator answers differently.\<close>

definition scenario_prev_fails :: collaborators where
  "scenario_prev_fails = (scenario_env 0)
     \<lparr>GetAllValidatorsPublicKeys :=
        (\<lambda>epoch. if epoch = 7 then Inr [0 \<mapsto> [''bob'', ''carol'']]
                 else Inl (ErrCollaborator ''unknown epoch''))\<rparr>"

definition scenario_no_current :: collaborators where
  "scenario_no_current = (scenario_env 0)\<lparr>GetCurrentBlockHeader := None\<rparr>"

definition scenario_empty_group :: collaborators where
  "scenario_empty_group = (scenario_env 0)
     \<lparr>GetNextConsensusGroup := (\<lambda>seed round shard epoch. Inr [])\<rparr>"

definition scenario_observer :: subroundStartRound where
  "scenario_observer = scenario_sr\<lparr>selfPubKey := ''dave''\<rparr>"

definition scenario_canceled :: subroundStartRound where
  "scenario_canceled = scenario_sr\<lparr>RoundCanceled := True\<rparr>"

definition scenario_ops :: "(collaborators \<times> operation) list" where
  "scenario_ops = [(scenario_env 0, Check), (scenario_env 0, EpochAction scenario_header),
                   (scenario_env 0, InstallIndexer None), (scenario_env 0, Check)]"

text \<open>One round as the node drives it, followed by an epoch start.\<close>

definition scenario_round :: "(collaborators \<times> operation) list" where
  "scenario_round = [(scenario_env 1000000000000, Job), (scenario_env 1000100000000, Check),
                     (scenario_env 1000200000000, InstallIndexer (Some NewNilIndexer)),
                     (scenario_env 1000300000000, Check),
                     (scenario_env 1000400000000, EpochAction scenario_header)]"

section \<open>Properties\<close>

subsection \<open>Auxiliary facts\<close>

lemmas setter_defs =
  SetStringValue_def Increment_def record_call_def SetStatus_def SetConsensusGroup_def

lemma fold_insert_set: "fold insert xs A = set xs \<union> A"
  by (induction xs arbitrary: A) auto

lemma ConsensusGroupIndex_None: "ConsensusGroupIndex pk grp = None \<longleftrightarrow> pk \<notin> set grp"
  by (induction grp) auto

lemma ConsensusGroupIndex_Some:
  "ConsensusGroupIndex pk grp = Some i \<Longrightarrow> i < length grp \<and> grp ! i = pk \<and> pk \<notin> set (take i grp)"
  by (induction grp arbitrary: i) (auto split: if_splits simp: nth_Cons')

lemma gen_cases:
  "generateNextConsensusGroup env r sr =
    (case (case GetCurrentBlockHeader env of None \<Rightarrow> GetGenesisHeader env | Some h \<Rightarrow> Some h) of
       None \<Rightarrow> (Some ErrNilHeader, sr)
     | Some h \<Rightarrow>
        (case GetNextConsensusGroup env (GetRandSeed h) (RoundIndex sr) (SelfId env) (GetEpoch h) of
           Inl err \<Rightarrow>
             (Some err,
              sr\<lparr>calls := calls sr @ [CallGetNextConsensusGroup (GetRandSeed h) (RoundIndex sr)
                                         (SelfId env) (GetEpoch h)]\<rparr>)
         | Inr g \<Rightarrow>
             (None,
              sr\<lparr>calls := calls sr @ [CallGetNextConsensusGroup (GetRandSeed h) (RoundIndex sr)
                                         (SelfId env) (GetEpoch h)],
                 consensusGroup := g\<rparr>)))"
  by (simp add: generateNextConsensusGroup_def Let_def record_call_def SetConsensusGroup_def
           split: option.splits sum.splits)

lemma index_cases:
  "indexRoundIfNeeded env pk sr = None \<and> GetCurrentBlockHeader env = None \<and> GetGenesisHeader env = None
   \<or> indexRoundIfNeeded env pk sr = Some sr
   \<or> (\<exists>ri. \<not> noRealIndexer sr \<and>
            indexRoundIfNeeded env pk sr = Some (record_call (GoSaveRoundInfo ri) sr))"
  by (auto simp: indexRoundIfNeeded_def noRealIndexer_def Let_def split: option.split sum.split)

lemma initCurrentRound_staged:
  "initCurrentRound env sr =
     (if ShouldSync env then Some (False, sr)
      else
        (case generateNextConsensusGroup env (RounderIndex env)
                (SetStringValue MetricConsensusRoundState [] sr) of
           (Some err, sr1) \<Rightarrow> Some (False, sr1\<lparr>RoundCanceled := True\<rparr>)
         | (None, sr1) \<Rightarrow>
             (case GetLeader sr1 of
                Inl err \<Rightarrow> Some (False, sr1\<lparr>RoundCanceled := True\<rparr>)
              | Inr leader \<Rightarrow> leaderStage env leader sr1)))"
  unfolding initCurrentRound_def leaderStage_def resetStage_def budgetCheck_def
  by (rule refl)

lemma budgetCheck_timeout:
  "sint (RemainingTime env (RoundTimeStamp s)
           (maxTime (TimeDuration env) (processingThresholdPercentage s))) < 0 \<Longrightarrow>
   budgetCheck env s =
     Some (False,
           s\<lparr>calls := calls s @ [CallRemainingTime (RoundTimeStamp s)
                                    (maxTime (TimeDuration env) (processingThresholdPercentage s))],
             RoundCanceled := True\<rparr>)"
  by (simp add: budgetCheck_def Let_def record_call_def)

lemma budgetCheck_nil_func:
  "0 \<le> sint (RemainingTime env (RoundTimeStamp s)
               (maxTime (TimeDuration env) (processingThresholdPercentage s))) \<Longrightarrow>
   executeStoredMessages s = NilFunc \<Longrightarrow>
   budgetCheck env s = None"
  by (simp add: budgetCheck_def Let_def record_call_def)

lemma budgetCheck_in_time:
  "0 \<le> sint (RemainingTime env (RoundTimeStamp s)
               (maxTime (TimeDuration env) (processingThresholdPercentage s))) \<Longrightarrow>
   executeStoredMessages s = Func \<Longrightarrow>
   budgetCheck env s =
     Some (True,
           s\<lparr>calls := calls s @ [CallRemainingTime (RoundTimeStamp s)
                                    (maxTime (TimeDuration env) (processingThresholdPercentage s))],
             status := (status s)(current s := SsFinished),
             calls := calls s @ [CallRemainingTime (RoundTimeStamp s)
                                    (maxTime (TimeDuration env) (processingThresholdPercentage s)),
                                 GoExecuteStoredMessages]\<rparr>)"
  by (simp add: budgetCheck_def Let_def record_call_def SetStatus_def)

lemma resetStage_char:
  "\<exists>sv cn.
     sv MetricConsensusState =
        (if selfPubKey s \<in> set (consensusGroup s) then ''participant'' else ''not in consensus group'') \<and>
     resetStage env pk s =
       (case MultiSignerReset env pk (word_of_int (fst (SelfConsensusGroupIndex (notFoundIndex env) s))) of
          Some e \<Rightarrow> Some (False, s\<lparr>stringValues := sv, counters := cn,
                    calls := calls s @ [CallMultiSignerReset pk (word_of_int (fst (SelfConsensusGroupIndex (notFoundIndex env) s)))],
                    RoundCanceled := True\<rparr>)
        | None \<Rightarrow> budgetCheck env (s\<lparr>stringValues := sv, counters := cn,
                    calls := calls s @ [CallMultiSignerReset pk (word_of_int (fst (SelfConsensusGroupIndex (notFoundIndex env) s)))]\<rparr>))"
proof (cases "ConsensusGroupIndex (selfPubKey s) (consensusGroup s)")
  case None
  let ?sv = "(stringValues s)(MetricConsensusState := ''not in consensus group'')"
  let ?idx = "word_of_int (notFoundIndex env) :: uint16"
  have mem: "selfPubKey s \<notin> set (consensusGroup s)"
    using None by (simp add: ConsensusGroupIndex_None)
  have self: "SelfConsensusGroupIndex (notFoundIndex env) s = (notFoundIndex env, Some ErrNotFoundInConsensus)"
    by (simp add: SelfConsensusGroupIndex_def None)
  have eq: "record_call (CallMultiSignerReset pk ?idx)
              (SetStringValue MetricConsensusState ''not in consensus group'' s) =
            s\<lparr>stringValues := ?sv, counters := counters s, calls := calls s @ [CallMultiSignerReset pk ?idx]\<rparr>"
    by (rule subroundStartRound.equality) (simp_all add: setter_defs)
  have "resetStage env pk s =
       (case MultiSignerReset env pk ?idx of
          Some e \<Rightarrow> Some (False, s\<lparr>stringValues := ?sv, counters := counters s,
                    calls := calls s @ [CallMultiSignerReset pk ?idx], RoundCanceled := True\<rparr>)
        | None \<Rightarrow> budgetCheck env (s\<lparr>stringValues := ?sv, counters := counters s,
                    calls := calls s @ [CallMultiSignerReset pk ?idx]\<rparr>))"
    unfolding resetStage_def self Let_def prod.case option.case eq ..
  then show ?thesis
    using mem unfolding self fst_conv by (intro exI [of _ ?sv] exI [of _ "counters s"]) simp
next
  case (Some i)
  let ?sv = "(stringValues s)(MetricConsensusState := ''participant'')"
  let ?cn = "(counters s)(MetricCountConsensus := Suc (counters s MetricCountConsensus))"
  let ?idx = "word_of_int (int i) :: uint16"
  have mem: "selfPubKey s \<in> set (consensusGroup s)"
    using Some ConsensusGroupIndex_None [of "selfPubKey s" "consensusGroup s"] by auto
  have self: "SelfConsensusGroupIndex (notFoundIndex env) s = (int i, None)"
    by (simp add: SelfConsensusGroupIndex_def Some)
  have eq: "record_call (CallMultiSignerReset pk ?idx)
              (SetStringValue MetricConsensusState ''participant'' (Increment MetricCountConsensus s)) =
            s\<lparr>stringValues := ?sv, counters := ?cn, calls := calls s @ [CallMultiSignerReset pk ?idx]\<rparr>"
    by (rule subroundStartRound.equality) (simp_all add: setter_defs)
  have "resetStage env pk s =
       (case MultiSignerReset env pk ?idx of
          Some e \<Rightarrow> Some (False, s\<lparr>stringValues := ?sv, counters := ?cn,
                    calls := calls s @ [CallMultiSignerReset pk ?idx], RoundCanceled := True\<rparr>)
        | None \<Rightarrow> budgetCheck env (s\<lparr>stringValues := ?sv, counters := ?cn,
                    calls := calls s @ [CallMultiSignerReset pk ?idx]\<rparr>))"
    unfolding resetStage_def self Let_def prod.case option.case eq ..
  then show ?thesis
    using mem unfolding self fst_conv by (intro exI [of _ ?sv] exI [of _ ?cn]) simp
qed

lemma leaderStage_char:
  assumes hdr: "GetCurrentBlockHeader env \<noteq> None \<or> GetGenesisHeader env \<noteq> None"
  shows "\<exists>sv cn mid.
     (mid = [] \<or> (\<exists>ri. mid = [GoSaveRoundInfo ri])) \<and>
     (noRealIndexer s \<longrightarrow> mid = []) \<and>
     leaderStage env leader s =
       resetStage env (consensusGroup s) (s\<lparr>stringValues := sv, counters := cn, calls := calls s @ mid\<rparr>)"
proof -
  define s2 where "s2 = (if leader = selfPubKey s
                 then SetStringValue MetricConsensusState ''proposer''
                        (SetStringValue MetricConsensusRoundState ''proposed''
                           (Increment MetricCountLeader s))
                 else s)"
  have cg: "consensusGroup s2 = consensusGroup s"
    by (simp add: s2_def setter_defs)
  have nri: "noRealIndexer s2 = noRealIndexer s"
    by (simp add: s2_def setter_defs noRealIndexer_def)
  have ls: "leaderStage env leader s =
      (case indexRoundIfNeeded env (consensusGroup s) s2 of
         None \<Rightarrow> None
       | Some s3 \<Rightarrow> resetStage env (consensusGroup s) s3)"
    unfolding leaderStage_def Let_def s2_def [symmetric] cg ..
  from index_cases [of env "consensusGroup s" s2] hdr
  consider (same) "indexRoundIfNeeded env (consensusGroup s) s2 = Some s2"
    | (saved) ri where "\<not> noRealIndexer s2"
        "indexRoundIfNeeded env (consensusGroup s) s2 = Some (record_call (GoSaveRoundInfo ri) s2)"
    by auto
  then show ?thesis
  proof cases
    case same
    have eq: "s2 = s\<lparr>stringValues := stringValues s2, counters := counters s2, calls := calls s @ []\<rparr>"
      by (rule subroundStartRound.equality) (simp_all add: s2_def setter_defs)
    have "leaderStage env leader s = resetStage env (consensusGroup s)
            (s\<lparr>stringValues := stringValues s2, counters := counters s2, calls := calls s @ []\<rparr>)"
      unfolding ls same option.case by (rule arg_cong [OF eq])
    then show ?thesis by blast
  next
    case saved
    have eq: "record_call (GoSaveRoundInfo ri) s2 =
              s\<lparr>stringValues := stringValues s2, counters := counters s2,
                calls := calls s @ [GoSaveRoundInfo ri]\<rparr>"
      by (rule subroundStartRound.equality) (simp_all add: s2_def setter_defs)
    have "leaderStage env leader s = resetStage env (consensusGroup s)
            (s\<lparr>stringValues := stringValues s2, counters := counters s2,
               calls := calls s @ [GoSaveRoundInfo ri]\<rparr>)"
      unfolding ls saved(2) option.case by (rule arg_cong [OF eq])
    moreover have "\<not> noRealIndexer s" using saved(1) nri by simp
    ultimately show ?thesis by blast
  qed
qed

lemma init_main:
  assumes ns: "\<not> ShouldSync env"
    and hdr: "(case GetCurrentBlockHeader env of None \<Rightarrow> GetGenesisHeader env | Some h \<Rightarrow> Some h) = Some h"
    and grp: "GetNextConsensusGroup env (GetRandSeed h) (RoundIndex sr) (SelfId env) (GetEpoch h) = Inr grp"
    and ne: "grp \<noteq> []"
  shows "\<exists>sv cn mid.
     (mid = [] \<or> (\<exists>ri. mid = [GoSaveRoundInfo ri])) \<and>
     (noRealIndexer sr \<longrightarrow> mid = []) \<and>
     sv MetricConsensusState =
        (if selfPubKey sr \<in> set grp then ''participant'' else ''not in consensus group'') \<and>
     initCurrentRound env sr =
       (case MultiSignerReset env grp
               (word_of_int (fst (SelfConsensusGroupIndex (notFoundIndex env) (sr\<lparr>consensusGroup := grp\<rparr>)))) of
          Some e \<Rightarrow> Some (False, sr\<lparr>stringValues := sv, counters := cn,
                    calls := calls sr @ CallGetNextConsensusGroup (GetRandSeed h) (RoundIndex sr) (SelfId env) (GetEpoch h)
                               # mid @ [CallMultiSignerReset grp
                                  (word_of_int (fst (SelfConsensusGroupIndex (notFoundIndex env) (sr\<lparr>consensusGroup := grp\<rparr>))))],
                    consensusGroup := grp,
                    RoundCanceled := True\<rparr>)
        | None \<Rightarrow> budgetCheck env (sr\<lparr>stringValues := sv, counters := cn,
                    calls := calls sr @ CallGetNextConsensusGroup (GetRandSeed h) (RoundIndex sr) (SelfId env) (GetEpoch h)
                               # mid @ [CallMultiSignerReset grp
                                  (word_of_int (fst (SelfConsensusGroupIndex (notFoundIndex env) (sr\<lparr>consensusGroup := grp\<rparr>))))],
                    consensusGroup := grp\<rparr>))"
proof -
  let ?get = "CallGetNextConsensusGroup (GetRandSeed h) (RoundIndex sr) (SelfId env) (GetEpoch h)"
  let ?idx = "word_of_int (fst (SelfConsensusGroupIndex (notFoundIndex env) (sr\<lparr>consensusGroup := grp\<rparr>))) :: uint16"
  define s1 where "s1 = (SetStringValue MetricConsensusRoundState [] sr)\<lparr>calls := calls sr @ [?get], consensusGroup := grp\<rparr>"
  have gen: "generateNextConsensusGroup env (RounderIndex env)
               (SetStringValue MetricConsensusRoundState [] sr) = (None, s1)"
    using hdr grp by (simp add: gen_cases s1_def SetStringValue_def)
  obtain leader rest where lr: "grp = leader # rest"
    using ne by (cases grp) auto
  have lead: "GetLeader s1 = Inr leader"
    by (simp add: GetLeader_def s1_def lr)
  have init: "initCurrentRound env sr = leaderStage env leader s1"
    by (simp add: initCurrentRound_staged ns gen lead)
  have hdr': "GetCurrentBlockHeader env \<noteq> None \<or> GetGenesisHeader env \<noteq> None"
    using hdr by (auto split: option.splits)
  have s1f: "consensusGroup s1 = grp" "selfPubKey s1 = selfPubKey sr" "noRealIndexer s1 = noRealIndexer sr"
       "calls s1 = calls sr @ [?get]"
    by (simp_all add: s1_def SetStringValue_def noRealIndexer_def)
  from leaderStage_char [OF hdr', of s1 leader]
  obtain sv cn mid where mid: "mid = [] \<or> (\<exists>ri. mid = [GoSaveRoundInfo ri])"
      "noRealIndexer sr \<longrightarrow> mid = []"
    and ls: "leaderStage env leader s1 =
       resetStage env grp (s1\<lparr>stringValues := sv, counters := cn, calls := calls s1 @ mid\<rparr>)"
    unfolding s1f by blast
  define s3 where "s3 = s1\<lparr>stringValues := sv, counters := cn, calls := calls s1 @ mid\<rparr>"
  have s3f: "consensusGroup s3 = grp" "selfPubKey s3 = selfPubKey sr"
    by (simp_all add: s3_def s1f)
  have idx: "fst (SelfConsensusGroupIndex (notFoundIndex env) s3) =
             fst (SelfConsensusGroupIndex (notFoundIndex env) (sr\<lparr>consensusGroup := grp\<rparr>))"
    by (simp add: SelfConsensusGroupIndex_def s3f)
  from resetStage_char [of s3 env grp]
  obtain sv' cn' where sv': "sv' MetricConsensusState =
        (if selfPubKey sr \<in> set grp then ''participant'' else ''not in consensus group'')"
    and rs: "resetStage env grp s3 =
       (case MultiSignerReset env grp ?idx of
          Some e \<Rightarrow> Some (False, s3\<lparr>stringValues := sv', counters := cn',
                    calls := calls s3 @ [CallMultiSignerReset grp ?idx],
                    RoundCanceled := True\<rparr>)
        | None \<Rightarrow> budgetCheck env (s3\<lparr>stringValues := sv', counters := cn',
                    calls := calls s3 @ [CallMultiSignerReset grp ?idx]\<rparr>))"
    unfolding idx s3f by blast
  have e1: "s3\<lparr>stringValues := sv', counters := cn',
                    calls := calls s3 @ [CallMultiSignerReset grp ?idx]\<rparr> =
            sr\<lparr>stringValues := sv', counters := cn',
                    calls := calls sr @ ?get # mid @ [CallMultiSignerReset grp ?idx],
                    consensusGroup := grp\<rparr>"
    by (rule subroundStartRound.equality) (simp_all add: s3_def s1_def SetStringValue_def)
  have e2: "s3\<lparr>stringValues := sv', counters := cn',
                    calls := calls s3 @ [CallMultiSignerReset grp ?idx],
                    RoundCanceled := True\<rparr> =
            sr\<lparr>stringValues := sv', counters := cn',
                    calls := calls sr @ ?get # mid @ [CallMultiSignerReset grp ?idx],
                    consensusGroup := grp,
                    RoundCanceled := True\<rparr>"
    by (rule subroundStartRound.equality) (simp_all add: s3_def s1_def SetStringValue_def)
  have "initCurrentRound env sr =
       (case MultiSignerReset env grp ?idx of
          Some e \<Rightarrow> Some (False, sr\<lparr>stringValues := sv', counters := cn',
                    calls := calls sr @ ?get # mid @ [CallMultiSignerReset grp ?idx],
                    consensusGroup := grp,
                    RoundCanceled := True\<rparr>)
        | None \<Rightarrow> budgetCheck env (sr\<lparr>stringValues := sv', counters := cn',
                    calls := calls sr @ ?get # mid @ [CallMultiSignerReset grp ?idx],
                    consensusGroup := grp\<rparr>))"
    unfolding init ls s3_def [symmetric] rs e1 e2 ..
  with mid sv' show ?thesis by blast
qed

lemma init_sync: "ShouldSync env \<Longrightarrow> initCurrentRound env sr = Some (False, sr)"
  by (simp add: initCurrentRound_def)

lemma init_no_header:
  assumes "\<not> ShouldSync env"
    and "(case GetCurrentBlockHeader env of None \<Rightarrow> GetGenesisHeader env | Some h \<Rightarrow> Some h) = None"
  shows "initCurrentRound env sr =
           Some (False, sr\<lparr>stringValues := (stringValues sr)(MetricConsensusRoundState := []),
                          RoundCanceled := True\<rparr>)"
  using assms by (simp add: initCurrentRound_staged gen_cases SetStringValue_def)

lemma init_selection_error:
  assumes "\<not> ShouldSync env"
    and "(case GetCurrentBlockHeader env of None \<Rightarrow> GetGenesisHeader env | Some h \<Rightarrow> Some h) = Some h"
    and "GetNextConsensusGroup env (GetRandSeed h) (RoundIndex sr) (SelfId env) (GetEpoch h) = Inl err"
  shows "initCurrentRound env sr =
           Some (False, sr\<lparr>stringValues := (stringValues sr)(MetricConsensusRoundState := []),
                          calls := calls sr @ [CallGetNextConsensusGroup (GetRandSeed h) (RoundIndex sr)
                                                 (SelfId env) (GetEpoch h)],
                          RoundCanceled := True\<rparr>)"
  using assms by (simp add: initCurrentRound_staged gen_cases SetStringValue_def)

lemma init_empty_group:
  assumes "\<not> ShouldSync env"
    and "(case GetCurrentBlockHeader env of None \<Rightarrow> GetGenesisHeader env | Some h \<Rightarrow> Some h) = Some h"
    and "GetNextConsensusGroup env (GetRandSeed h) (RoundIndex sr) (SelfId env) (GetEpoch h) = Inr []"
  shows "initCurrentRound env sr =
           Some (False, sr\<lparr>stringValues := (stringValues sr)(MetricConsensusRoundState := []),
                          calls := calls sr @ [CallGetNextConsensusGroup (GetRandSeed h) (RoundIndex sr)
                                                 (SelfId env) (GetEpoch h)],
                          consensusGroup := [],
                          RoundCanceled := True\<rparr>)"
  using assms by (simp add: initCurrentRound_staged gen_cases SetStringValue_def GetLeader_def)

lemma check_when_canceled:
  "RoundCanceled sr \<Longrightarrow> doStartRoundConsensusCheck env sr = Some (False, sr)"
  by (simp add: doStartRoundConsensusCheck_def)

lemma check_eq_init:
  "\<not> RoundCanceled sr \<Longrightarrow> \<not> IsSubroundFinished sr (current sr) \<Longrightarrow>
   doStartRoundConsensusCheck env sr = initCurrentRound env sr"
  by (simp add: doStartRoundConsensusCheck_def split: option.split prod.split bool.split)

lemma changeEpoch_frame:
  "RoundCanceled (changeEpoch env h sr) = RoundCanceled sr"
  "calls (changeEpoch env h sr) = calls sr"
  "indexer (changeEpoch env h sr) = indexer sr"
  "executeStoredMessages (changeEpoch env h sr) = executeStoredMessages sr"
  by (simp_all add: changeEpoch_def SetEligibleList_def Let_def split: sum.split)

lemma perform_keeps_canceled:
  "op \<noteq> Job \<Longrightarrow> RoundCanceled sr \<Longrightarrow> \<exists>sr'. perform env op sr = Some sr' \<and> RoundCanceled sr'"
  by (cases op)
     (simp_all add: check_when_canceled EpochStartPrepare_def EpochStartAction_def
        changeEpoch_frame SetIndexer_def)

lemma run_keeps_canceled:
  "RoundCanceled sr \<Longrightarrow> Job \<notin> snd ` set ops \<Longrightarrow> \<exists>sr'. run ops sr = Some sr' \<and> RoundCanceled sr'"
proof (induction ops arbitrary: sr)
  case Nil
  then show ?case by simp
next
  case (Cons a ops)
  obtain env op where a: "a = (env, op)" by (cases a)
  with Cons.prems have "op \<noteq> Job" by auto
  from perform_keeps_canceled [OF this Cons.prems(1), of env]
  obtain sr1 where p: "perform env op sr = Some sr1" and c: "RoundCanceled sr1" by blast
  from Cons.IH [OF c] Cons.prems(2) obtain sr' where "run ops sr1 = Some sr'" "RoundCanceled sr'"
    by auto
  with p a show ?case by simp
qed

lemma init_reaches_reset:
  assumes ns: "\<not> ShouldSync env"
    and hdr: "(case GetCurrentBlockHeader env of None \<Rightarrow> GetGenesisHeader env | Some h \<Rightarrow> Some h) = Some h"
    and grp: "GetNextConsensusGroup env (GetRandSeed h) (RoundIndex sr) (SelfId env) (GetEpoch h) = Inr grp"
    and ne: "grp \<noteq> []"
    and idx: "idx = word_of_int (fst (SelfConsensusGroupIndex (notFoundIndex env) (sr\<lparr>consensusGroup := grp\<rparr>)))"
  obtains S mid where
    "RoundIndex S = RoundIndex sr" "RoundTimeStamp S = RoundTimeStamp sr"
    "RoundCanceled S = RoundCanceled sr" "consensusGroup S = grp"
    "selfPubKey S = selfPubKey sr" "eligibleList S = eligibleList sr"
    "status S = status sr" "current S = current sr"
    "processingThresholdPercentage S = processingThresholdPercentage sr"
    "indexer S = indexer sr"
    "executeStoredMessages S = executeStoredMessages sr"
    "calls S = calls sr @ CallGetNextConsensusGroup (GetRandSeed h) (RoundIndex sr) (SelfId env) (GetEpoch h)
                 # mid @ [CallMultiSignerReset grp idx]"
    "mid = [] \<or> (\<exists>ri. mid = [GoSaveRoundInfo ri])"
    "noRealIndexer sr \<longrightarrow> mid = []"
    "stringValues S MetricConsensusState =
       (if selfPubKey sr \<in> set grp then ''participant'' else ''not in consensus group'')"
    "initCurrentRound env sr =
       (case MultiSignerReset env grp idx of
          Some e \<Rightarrow> Some (False, S\<lparr>RoundCanceled := True\<rparr>)
        | None \<Rightarrow> budgetCheck env S)"
proof -
  from init_main [OF ns hdr grp ne]
  obtain sv cn mid where
    m: "mid = [] \<or> (\<exists>ri. mid = [GoSaveRoundInfo ri])" "noRealIndexer sr \<longrightarrow> mid = []"
    and sv: "sv MetricConsensusState =
        (if selfPubKey sr \<in> set grp then ''participant'' else ''not in consensus group'')"
    and eq: "initCurrentRound env sr =
       (case MultiSignerReset env grp idx of
          Some e \<Rightarrow> Some (False, sr\<lparr>stringValues := sv, counters := cn,
                    calls := calls sr @ CallGetNextConsensusGroup (GetRandSeed h) (RoundIndex sr) (SelfId env) (GetEpoch h)
                               # mid @ [CallMultiSignerReset grp idx],
                    consensusGroup := grp,
                    RoundCanceled := True\<rparr>)
        | None \<Rightarrow> budgetCheck env (sr\<lparr>stringValues := sv, counters := cn,
                    calls := calls sr @ CallGetNextConsensusGroup (GetRandSeed h) (RoundIndex sr) (SelfId env) (GetEpoch h)
                               # mid @ [CallMultiSignerReset grp idx],
                    consensusGroup := grp\<rparr>))"
    unfolding idx by blast
  show thesis
    by (rule that [where mid = mid and S = "sr\<lparr>stringValues := sv, counters := cn,
                    calls := calls sr @ CallGetNextConsensusGroup (GetRandSeed h) (RoundIndex sr) (SelfId env) (GetEpoch h)
                               # mid @ [CallMultiSignerReset grp idx],
                    consensusGroup := grp\<rparr>"])
       (use m sv eq in simp_all)
qed

lemma init_outcome:
  assumes ns: "\<not> ShouldSync env"
    and hdr: "(case GetCurrentBlockHeader env of None \<Rightarrow> GetGenesisHeader env | Some h \<Rightarrow> Some h) = Some h"
    and grp: "GetNextConsensusGroup env (GetRandSeed h) (RoundIndex sr) (SelfId env) (GetEpoch h) = Inr grp"
    and ne: "grp \<noteq> []"
    and idx: "idx = word_of_int (fst (SelfConsensusGroupIndex (notFoundIndex env) (sr\<lparr>consensusGroup := grp\<rparr>)))"
    and rem: "rem = sint (RemainingTime env (RoundTimeStamp sr)
                            (maxTime (TimeDuration env) (processingThresholdPercentage sr)))"
    and cb: "executeStoredMessages sr = Func \<or> MultiSignerReset env grp idx \<noteq> None \<or> rem < 0"
  obtains b sr' mid post where
    "initCurrentRound env sr = Some (b, sr')"
    "b \<longleftrightarrow> MultiSignerReset env grp idx = None \<and> 0 \<le> rem"
    "RoundCanceled sr' \<longleftrightarrow> RoundCanceled sr \<or> MultiSignerReset env grp idx \<noteq> None \<or> rem < 0"
    "consensusGroup sr' = grp"
    "stringValues sr' MetricConsensusState =
       (if selfPubKey sr \<in> set grp then ''participant'' else ''not in consensus group'')"
    "calls sr' = calls sr @ CallGetNextConsensusGroup (GetRandSeed h) (RoundIndex sr) (SelfId env) (GetEpoch h)
                 # mid @ CallMultiSignerReset grp idx # post"
    "mid = [] \<or> (\<exists>ri. mid = [GoSaveRoundInfo ri])"
    "noRealIndexer sr \<longrightarrow> mid = []"
    "post = (if MultiSignerReset env grp idx \<noteq> None then []
             else if rem < 0
             then [CallRemainingTime (RoundTimeStamp sr)
                     (maxTime (TimeDuration env) (processingThresholdPercentage sr))]
             else [CallRemainingTime (RoundTimeStamp sr)
                     (maxTime (TimeDuration env) (processingThresholdPercentage sr)),
                   GoExecuteStoredMessages])"
    "noRealIndexer sr' = noRealIndexer sr"
    "executeStoredMessages sr' = executeStoredMessages sr"
proof -
  from init_reaches_reset [OF ns hdr grp ne idx]
  obtain S mid where S: "RoundTimeStamp S = RoundTimeStamp sr"
    "RoundCanceled S = RoundCanceled sr" "consensusGroup S = grp"
    "processingThresholdPercentage S = processingThresholdPercentage sr"
    "indexer S = indexer sr" "executeStoredMessages S = executeStoredMessages sr"
    "calls S = calls sr @ CallGetNextConsensusGroup (GetRandSeed h) (RoundIndex sr) (SelfId env) (GetEpoch h)
                 # mid @ [CallMultiSignerReset grp idx]"
    and mid: "mid = [] \<or> (\<exists>ri. mid = [GoSaveRoundInfo ri])" "noRealIndexer sr \<longrightarrow> mid = []"
    and sv: "stringValues S MetricConsensusState =
       (if selfPubKey sr \<in> set grp then ''participant'' else ''not in consensus group'')"
    and init: "initCurrentRound env sr =
       (case MultiSignerReset env grp idx of
          Some e \<Rightarrow> Some (False, S\<lparr>RoundCanceled := True\<rparr>)
        | None \<Rightarrow> budgetCheck env S)"
    by metis
  show thesis
  proof (cases "MultiSignerReset env grp idx")
    case (Some e)
    show thesis
      by (rule that [where b = False and sr' = "S\<lparr>RoundCanceled := True\<rparr>" and mid = mid and post = "[]"])
         (use Some S mid sv init in \<open>simp_all add: noRealIndexer_def\<close>)
  next
    case None
    show thesis
    proof (cases "rem < 0")
      case True
      show thesis
        by (rule that [where b = False and mid = mid
              and sr' = "S\<lparr>calls := calls S @ [CallRemainingTime (RoundTimeStamp S)
                              (maxTime (TimeDuration env) (processingThresholdPercentage S))],
                          RoundCanceled := True\<rparr>"
              and post = "[CallRemainingTime (RoundTimeStamp sr)
                     (maxTime (TimeDuration env) (processingThresholdPercentage sr))]"])
           (use None True S mid sv init budgetCheck_timeout [of env S] rem in
              \<open>simp_all add: noRealIndexer_def\<close>)
    next
      case False
      show thesis
        by (rule that [where b = True and mid = mid
              and sr' = "S\<lparr>calls := calls S @ [CallRemainingTime (RoundTimeStamp S)
                              (maxTime (TimeDuration env) (processingThresholdPercentage S))],
                          status := (status S)(current S := SsFinished),
                          calls := calls S @ [CallRemainingTime (RoundTimeStamp S)
                              (maxTime (TimeDuration env) (processingThresholdPercentage S)),
                            GoExecuteStoredMessages]\<rparr>"
              and post = "[CallRemainingTime (RoundTimeStamp sr)
                     (maxTime (TimeDuration env) (processingThresholdPercentage sr)),
                   GoExecuteStoredMessages]"])
           (use None False S mid sv init budgetCheck_in_time [of env S] rem cb in
              \<open>simp_all add: noRealIndexer_def\<close>)
    qed
  qed
qed

lemma init_dies_without_callback:
  assumes ns: "\<not> ShouldSync env"
    and hdr: "(case GetCurrentBlockHeader env of None \<Rightarrow> GetGenesisHeader env | Some h \<Rightarrow> Some h) = Some h"
    and grp: "GetNextConsensusGroup env (GetRandSeed h) (RoundIndex sr) (SelfId env) (GetEpoch h) = Inr grp"
    and ne: "grp \<noteq> []"
    and reset: "MultiSignerReset env grp
                  (word_of_int (fst (SelfConsensusGroupIndex (notFoundIndex env)
                                       (sr\<lparr>consensusGroup := grp\<rparr>)))) = None"
    and rem: "0 \<le> sint (RemainingTime env (RoundTimeStamp sr)
                            (maxTime (TimeDuration env) (processingThresholdPercentage sr)))"
    and nil: "executeStoredMessages sr = NilFunc"
  shows "initCurrentRound env sr = None"
proof -
  from init_reaches_reset [OF ns hdr grp ne refl]
  obtain S where S: "RoundTimeStamp S = RoundTimeStamp sr"
      "processingThresholdPercentage S = processingThresholdPercentage sr"
      "executeStoredMessages S = executeStoredMessages sr"
    and init: "initCurrentRound env sr =
       (case MultiSignerReset env grp
               (word_of_int (fst (SelfConsensusGroupIndex (notFoundIndex env)
                                    (sr\<lparr>consensusGroup := grp\<rparr>)))) of
          Some e \<Rightarrow> Some (False, S\<lparr>RoundCanceled := True\<rparr>)
        | None \<Rightarrow> budgetCheck env S)"
    by metis
  from budgetCheck_nil_func [of env S] rem nil S have "budgetCheck env S = None"
    by simp
  with init reset show ?thesis by simp
qed

lemma init_cases [case_names sync no_header selection_error empty_group derived]:
  obtains
    "ShouldSync env" "initCurrentRound env sr = Some (False, sr)"
  | "\<not> ShouldSync env"
    "(case GetCurrentBlockHeader env of None \<Rightarrow> GetGenesisHeader env | Some h \<Rightarrow> Some h) = None"
    "initCurrentRound env sr =
       Some (False, sr\<lparr>stringValues := (stringValues sr)(MetricConsensusRoundState := []),
                      RoundCanceled := True\<rparr>)"
  | h err where "\<not> ShouldSync env"
    "(case GetCurrentBlockHeader env of None \<Rightarrow> GetGenesisHeader env | Some h \<Rightarrow> Some h) = Some h"
    "GetNextConsensusGroup env (GetRandSeed h) (RoundIndex sr) (SelfId env) (GetEpoch h) = Inl err"
    "initCurrentRound env sr =
       Some (False, sr\<lparr>stringValues := (stringValues sr)(MetricConsensusRoundState := []),
                      calls := calls sr @ [CallGetNextConsensusGroup (GetRandSeed h) (RoundIndex sr)
                                             (SelfId env) (GetEpoch h)],
                      RoundCanceled := True\<rparr>)"
  | h where "\<not> ShouldSync env"
    "(case GetCurrentBlockHeader env of None \<Rightarrow> GetGenesisHeader env | Some h \<Rightarrow> Some h) = Some h"
    "GetNextConsensusGroup env (GetRandSeed h) (RoundIndex sr) (SelfId env) (GetEpoch h) = Inr []"
    "initCurrentRound env sr =
       Some (False, sr\<lparr>stringValues := (stringValues sr)(MetricConsensusRoundState := []),
                      calls := calls sr @ [CallGetNextConsensusGroup (GetRandSeed h) (RoundIndex sr)
                                             (SelfId env) (GetEpoch h)],
                      consensusGroup := [],
                      RoundCanceled := True\<rparr>)"
  | h grp where "\<not> ShouldSync env"
    "(case GetCurrentBlockHeader env of None \<Rightarrow> GetGenesisHeader env | Some h \<Rightarrow> Some h) = Some h"
    "GetNextConsensusGroup env (GetRandSeed h) (RoundIndex sr) (SelfId env) (GetEpoch h) = Inr grp"
    "grp \<noteq> []"
proof (cases "ShouldSync env")
  case True
  then show ?thesis using that(1) by (simp add: init_sync)
next
  case ns: False
  show ?thesis
  proof (cases "case GetCurrentBlockHeader env of None \<Rightarrow> GetGenesisHeader env | Some h \<Rightarrow> Some h")
    case None
    show ?thesis by (rule that(2) [OF ns None init_no_header [OF ns None]])
  next
    case (Some h)
    show ?thesis
    proof (cases "GetNextConsensusGroup env (GetRandSeed h) (RoundIndex sr) (SelfId env) (GetEpoch h)")
      case (Inl err)
      show ?thesis by (rule that(3) [OF ns Some Inl init_selection_error [OF ns Some Inl]])
    next
      case (Inr grp)
      show ?thesis
      proof (cases "grp = []")
        case True
        with Inr have e: "GetNextConsensusGroup env (GetRandSeed h) (RoundIndex sr) (SelfId env) (GetEpoch h) = Inr []"
          by simp
        show ?thesis by (rule that(4) [OF ns Some e init_empty_group [OF ns Some e]])
      next
        case False
        from ns Some Inr False show ?thesis by (rule that(5))
      qed
    qed
  qed
qed

text \<open>What holds of every state that \<open>initCurrentRound\<close> returns on its main path.\<close>

lemma init_returned:
  assumes ns: "\<not> ShouldSync env"
    and hdr: "(case GetCurrentBlockHeader env of None \<Rightarrow> GetGenesisHeader env | Some h \<Rightarrow> Some h) = Some h"
    and grp: "GetNextConsensusGroup env (GetRandSeed h) (RoundIndex sr) (SelfId env) (GetEpoch h) = Inr grp"
    and ne: "grp \<noteq> []"
    and init: "initCurrentRound env sr = Some (b, sr')"
  shows "(RoundCanceled sr \<longrightarrow> RoundCanceled sr') \<and>
         (noRealIndexer sr \<longrightarrow>
            filter isSaveRoundInfo (calls sr') = filter isSaveRoundInfo (calls sr) \<and>
            noRealIndexer sr') \<and>
         executeStoredMessages sr' = executeStoredMessages sr"
proof -
  let ?idx = "word_of_int (fst (SelfConsensusGroupIndex (notFoundIndex env)
                                  (sr\<lparr>consensusGroup := grp\<rparr>))) :: uint16"
  let ?rem = "sint (RemainingTime env (RoundTimeStamp sr)
                      (maxTime (TimeDuration env) (processingThresholdPercentage sr)))"
  have cb: "executeStoredMessages sr = Func \<or> MultiSignerReset env grp ?idx \<noteq> None \<or> ?rem < 0"
  proof (rule ccontr)
    assume "\<not> ?thesis"
    then have "executeStoredMessages sr = NilFunc" "MultiSignerReset env grp ?idx = None" "0 \<le> ?rem"
      by (cases "executeStoredMessages sr"; simp)+
    from init_dies_without_callback [OF ns hdr grp ne this(2) this(3) this(1)] init
    show False by simp
  qed
  show ?thesis
    by (rule init_outcome [OF ns hdr grp ne refl refl cb]) (use init in auto)
qed

lemma init_total:
  assumes "executeStoredMessages sr = Func"
  shows "\<exists>b sr'. initCurrentRound env sr = Some (b, sr')"
proof (cases rule: init_cases [of env sr])
  case (derived h grp)
  show ?thesis
    by (rule init_outcome [OF derived refl refl disjI1 [OF assms]]) blast
qed blast+

lemma init_frame:
  assumes init: "initCurrentRound env sr = Some (b, sr')"
  shows "(RoundCanceled sr \<longrightarrow> RoundCanceled sr') \<and>
         (noRealIndexer sr \<longrightarrow>
            filter isSaveRoundInfo (calls sr') = filter isSaveRoundInfo (calls sr) \<and>
            noRealIndexer sr') \<and>
         executeStoredMessages sr' = executeStoredMessages sr"
proof (cases rule: init_cases [of env sr])
  case (derived h grp)
  from init_returned [OF derived init] show ?thesis .
qed (use init in \<open>auto simp: noRealIndexer_def\<close>)

lemma init_no_save:
  assumes nri: "noRealIndexer sr" and init: "initCurrentRound env sr = Some (b, sr')"
  shows "filter isSaveRoundInfo (calls sr') = filter isSaveRoundInfo (calls sr) \<and> noRealIndexer sr'"
  using init_frame [OF init] nri by simp

lemma init_keeps_canceled:
  assumes c: "RoundCanceled sr" and init: "initCurrentRound env sr = Some (b, sr')"
  shows "RoundCanceled sr'"
  using init_frame [OF init] c by simp

lemma maxTime_in_range:
  assumes lo: "- (2 ^ 63) \<le> sint d * pct" and hi: "sint d * pct < 2 ^ 63"
  shows "sint (maxTime d pct) = (sint d * pct) sdiv 100"
proof -
  have "d * word_of_int pct = (word_of_int (sint d * pct) :: 64 word)"
    by simp
  then have p: "sint (d * word_of_int pct) = sint d * pct"
    using lo hi by (simp only: sint_sbintrunc') (simp add: signed_take_bit_int_eq_self)
  have q: "- (2 ^ 63) \<le> (sint d * pct) sdiv 100 \<and> (sint d * pct) sdiv 100 < 2 ^ 63"
  proof (cases "0 \<le> sint d * pct")
    case True
    then have "(sint d * pct) sdiv 100 = (sint d * pct) div 100"
      by (simp add: signed_divide_int_def sgn_if)
    moreover have "0 \<le> (sint d * pct) div 100" "(sint d * pct) div 100 \<le> sint d * pct"
      using True by simp_all
    ultimately show ?thesis using hi by simp
  next
    case False
    then have "(sint d * pct) sdiv 100 = - ((- (sint d * pct)) div 100)"
      by (simp add: signed_divide_int_def sgn_if)
    moreover have "0 \<le> (- (sint d * pct)) div 100" "(- (sint d * pct)) div 100 \<le> - (sint d * pct)"
      using False by simp_all
    ultimately show ?thesis using lo by simp
  qed
  have "sint (word_of_int ((sint d * pct) sdiv 100) :: 64 word) = (sint d * pct) sdiv 100"
    using q by (simp only: sint_sbintrunc') (simp add: signed_take_bit_int_eq_self)
  then show ?thesis
    by (simp add: maxTime_def int64_div_def p)
qed

lemma self_index_not_member:
  "selfPubKey sr \<notin> set grp \<Longrightarrow>
   SelfConsensusGroupIndex nf (sr\<lparr>consensusGroup := grp\<rparr>) = (nf, Some ErrNotFoundInConsensus)"
  using ConsensusGroupIndex_None [of "selfPubKey sr" grp]
  by (simp add: SelfConsensusGroupIndex_def)

lemma self_index_member:
  assumes "selfPubKey sr \<in> set grp"
  shows "\<exists>i. SelfConsensusGroupIndex nf (sr\<lparr>consensusGroup := grp\<rparr>) = (int i, None) \<and>
             i < length grp \<and> grp ! i = selfPubKey sr \<and> selfPubKey sr \<notin> set (take i grp)"
proof -
  from assms obtain i where i: "ConsensusGroupIndex (selfPubKey sr) grp = Some i"
    using ConsensusGroupIndex_None [of "selfPubKey sr" grp] by auto
  with ConsensusGroupIndex_Some [OF i] show ?thesis
    by (simp add: SelfConsensusGroupIndex_def)
qed

lemma job_frame:
  "fst (doStartRoundJob env sr)"
  "calls (snd (doStartRoundJob env sr)) = calls sr"
  "noRealIndexer (snd (doStartRoundJob env sr)) = noRealIndexer sr"
  "selfPubKey (snd (doStartRoundJob env sr)) = selfPubKey sr"
  "processingThresholdPercentage (snd (doStartRoundJob env sr)) = processingThresholdPercentage sr"
  "executeStoredMessages (snd (doStartRoundJob env sr)) = executeStoredMessages sr"
  "RoundIndex (snd (doStartRoundJob env sr)) = RounderIndex env"
  "RoundTimeStamp (snd (doStartRoundJob env sr)) = RounderTimeStamp env"
  "consensusGroup (snd (doStartRoundJob env sr)) = []"
  "\<not> RoundCanceled (snd (doStartRoundJob env sr))"
  "\<not> IsSubroundFinished (snd (doStartRoundJob env sr)) (current (snd (doStartRoundJob env sr)))"
  by (simp_all add: doStartRoundJob_def ResetConsensusState_def noRealIndexer_def
        IsSubroundFinished_def)

lemma check_frame:
  assumes "doStartRoundConsensusCheck env sr = Some (b, sr')"
  shows "(noRealIndexer sr \<longrightarrow>
            filter isSaveRoundInfo (calls sr') = filter isSaveRoundInfo (calls sr) \<and>
            noRealIndexer sr') \<and>
         executeStoredMessages sr' = executeStoredMessages sr"
proof (cases "RoundCanceled sr \<or> IsSubroundFinished sr (current sr)")
  case True
  with assms show ?thesis
    by (auto simp: doStartRoundConsensusCheck_def split: if_splits)
next
  case False
  then have "doStartRoundConsensusCheck env sr = initCurrentRound env sr"
    by (simp add: check_eq_init)
  with assms init_frame [of env sr b sr'] show ?thesis by simp
qed

lemma check_total:
  assumes "executeStoredMessages sr = Func"
  shows "\<exists>b sr'. doStartRoundConsensusCheck env sr = Some (b, sr')"
proof (cases "RoundCanceled sr \<or> IsSubroundFinished sr (current sr)")
  case True
  then show ?thesis
    by (auto simp: doStartRoundConsensusCheck_def)
next
  case False
  then have "doStartRoundConsensusCheck env sr = initCurrentRound env sr"
    by (simp add: check_eq_init)
  with init_total [OF assms, of env] show ?thesis by simp
qed

lemma perform_frame:
  assumes p: "perform env op sr = Some sr'"
    and ok: "\<forall>ix. op = InstallIndexer (Some ix) \<longrightarrow> IsNilIndexer ix"
  shows "(noRealIndexer sr \<longrightarrow>
            filter isSaveRoundInfo (calls sr') = filter isSaveRoundInfo (calls sr) \<and>
            noRealIndexer sr') \<and>
         executeStoredMessages sr' = executeStoredMessages sr"
proof (cases op)
  case Job
  with p show ?thesis by (auto simp: job_frame)
next
  case Check
  with p obtain b where "doStartRoundConsensusCheck env sr = Some (b, sr')"
    by auto
  from check_frame [OF this] show ?thesis .
next
  case (EpochPrepare h)
  with p show ?thesis by (auto simp: EpochStartPrepare_def)
next
  case (EpochAction h)
  with p show ?thesis
    by (auto simp: EpochStartAction_def changeEpoch_frame noRealIndexer_def)
next
  case (InstallIndexer ix)
  with p ok show ?thesis
    by (cases ix) (auto simp: SetIndexer_def noRealIndexer_def)
qed

lemma perform_total:
  assumes "executeStoredMessages sr = Func"
  shows "\<exists>sr'. perform env op sr = Some sr'"
  using check_total [OF assms, of env] by (cases op) auto

lemma run_no_save:
  assumes "run ops sr = Some sr'"
    and "noRealIndexer sr"
    and "\<forall>(env, op) \<in> set ops. \<forall>ix. op = InstallIndexer (Some ix) \<longrightarrow> IsNilIndexer ix"
  shows "filter isSaveRoundInfo (calls sr') = filter isSaveRoundInfo (calls sr) \<and>
         noRealIndexer sr'"
  using assms
proof (induction ops arbitrary: sr)
  case Nil
  then show ?case by simp
next
  case (Cons a ops)
  obtain env op where a: "a = (env, op)" by (cases a)
  with Cons.prems(1) obtain sr1 where p: "perform env op sr = Some sr1"
    and r: "run ops sr1 = Some sr'"
    by (auto split: option.splits)
  from a Cons.prems(3) have "\<forall>ix. op = InstallIndexer (Some ix) \<longrightarrow> IsNilIndexer ix"
    by auto
  from perform_frame [OF p this] Cons.prems(2)
  have c: "filter isSaveRoundInfo (calls sr1) = filter isSaveRoundInfo (calls sr)"
    and n: "noRealIndexer sr1"
    by simp_all
  from Cons.prems(3) have "\<forall>(env, op) \<in> set ops. \<forall>ix. op = InstallIndexer (Some ix) \<longrightarrow> IsNilIndexer ix"
    by auto
  from Cons.IH [OF r n this] c show ?case by simp
qed

lemma run_total:
  assumes "executeStoredMessages sr = Func"
    and "\<forall>(env, op) \<in> set ops. \<forall>ix. op = InstallIndexer (Some ix) \<longrightarrow> IsNilIndexer ix"
  shows "\<exists>sr'. run ops sr = Some sr'"
  using assms
proof (induction ops arbitrary: sr)
  case Nil
  then show ?case by simp
next
  case (Cons a ops)
  obtain env op where a: "a = (env, op)" by (cases a)
  from perform_total [OF Cons.prems(1), of env op]
  obtain sr1 where p: "perform env op sr = Some sr1" by blast
  from a Cons.prems(2) have "\<forall>ix. op = InstallIndexer (Some ix) \<longrightarrow> IsNilIndexer ix"
    by auto
  from perform_frame [OF p this] Cons.prems(1) have f: "executeStoredMessages sr1 = Func"
    by simp
  from Cons.prems(2) have "\<forall>(env, op) \<in> set ops. \<forall>ix. op = InstallIndexer (Some ix) \<longrightarrow> IsNilIndexer ix"
    by auto
  from Cons.IH [OF f this] obtain sr' where "run ops sr1 = Some sr'" by blast
  with p a show ?case by simp
qed

lemmas scenario_defs = scenario_env_def scenario_sr_def scenario_header_def scenario_genesis_def

text \<open>
  The branch of line 171 is real: the subround of the concrete round, constructed with a
  nil \<open>executeStoredMessages\<close>, does not come back from its first Check within the budget.
\<close>

lemma check_without_callback_does_not_return:
  "doStartRoundConsensusCheck (scenario_env 1000100000000) scenario_no_callback = None"
proof -
  let ?env = "scenario_env 1000100000000"
  let ?grp = "[''alice'', ''bob'', ''carol'']"
  have st: "\<not> RoundCanceled scenario_no_callback"
    "\<not> IsSubroundFinished scenario_no_callback (current scenario_no_callback)"
    by (simp_all add: scenario_no_callback_def scenario_defs IsSubroundFinished_def)
  have ns: "\<not> ShouldSync ?env"
    by (simp add: scenario_defs)
  have hdr: "(case GetCurrentBlockHeader ?env of
        None \<Rightarrow> GetGenesisHeader ?env | Some h \<Rightarrow> Some h) = Some scenario_header"
    by (simp add: scenario_defs)
  have grp: "GetNextConsensusGroup ?env (GetRandSeed scenario_header)
       (RoundIndex scenario_no_callback) (SelfId ?env) (GetEpoch scenario_header) = Inr ?grp"
    by (simp add: scenario_defs)
  have ne: "?grp \<noteq> []" by simp
  have reset: "MultiSignerReset ?env ?grp
        (word_of_int (fst (SelfConsensusGroupIndex (notFoundIndex ?env)
                             (scenario_no_callback\<lparr>consensusGroup := ?grp\<rparr>)))) = None"
    by (simp add: scenario_defs)
  have rem: "0 \<le> sint (RemainingTime ?env (RoundTimeStamp scenario_no_callback)
                (maxTime (TimeDuration ?env) (processingThresholdPercentage scenario_no_callback)))"
    by (simp add: scenario_no_callback_def scenario_defs elapsedRemainingTime_def maxTime_def
          int64_div_def)
  have nil: "executeStoredMessages scenario_no_callback = NilFunc"
    by (simp add: scenario_no_callback_def)
  from init_dies_without_callback [OF ns hdr grp ne reset rem nil] check_eq_init [OF st, of ?env]
  show ?thesis by simp
qed

subsection \<open>Epoch start\<close>

text \<open>
  Claim C3. When both fetches of the validator lists succeed, the epoch-start action sets
  the eligible set of the local shard to exactly the union of the shard's public keys in
  the previous epoch and in the new epoch: every key of either list is in the set and no
  other key is. The previous epoch is \<open>header.GetEpoch() - 1\<close> in \<open>uint32\<close>.
\<close>

theorem epoch_union:
  assumes prev: "GetAllValidatorsPublicKeys env (GetEpoch hdr - 1) = Inr publicKeysPrevEpoch"
      and new: "GetAllValidatorsPublicKeys env (GetEpoch hdr) = Inr publicKeysNewEpoch"
  shows "eligibleList (EpochStartAction env hdr sr) =
           set (shardKeys publicKeysPrevEpoch (SelfId env)) \<union>
           set (shardKeys publicKeysNewEpoch (SelfId env))"
  using assms
  by (simp add: EpochStartAction_def changeEpoch_def SetEligibleList_def fold_insert_set Let_def
        Un_commute)

theorem epoch_union_witness:
  "GetAllValidatorsPublicKeys (scenario_env 0) (GetEpoch scenario_header - 1) =
     Inr [0 \<mapsto> [''alice'', ''bob'']] \<and>
   GetAllValidatorsPublicKeys (scenario_env 0) (GetEpoch scenario_header) =
     Inr [0 \<mapsto> [''bob'', ''carol'']] \<and>
   eligibleList (EpochStartAction (scenario_env 0) scenario_header scenario_sr) =
     {''alice'', ''bob'', ''carol''}"
proof -
  have p: "GetAllValidatorsPublicKeys (scenario_env 0) (GetEpoch scenario_header - 1) =
             Inr [0 \<mapsto> [''alice'', ''bob'']]"
    by (simp add: scenario_env_def scenario_header_def)
  have n: "GetAllValidatorsPublicKeys (scenario_env 0) (GetEpoch scenario_header) =
             Inr [0 \<mapsto> [''bob'', ''carol'']]"
    by (simp add: scenario_env_def scenario_header_def)
  show ?thesis
    using epoch_union [OF p n, of scenario_sr] p n
    by (auto simp: shardKeys_def scenario_env_def)
qed

text \<open>
  Claim C4. When the fetch of the validator list fails for the previous epoch or for the
  new epoch, the epoch-start action changes nothing: the eligible set, like every other
  field, is what it was. This covers a failure for the previous epoch with a new epoch
  whose list would be delivered.
\<close>

theorem epoch_fetch_error_keeps_state:
  assumes "(\<exists>err. GetAllValidatorsPublicKeys env (GetEpoch hdr - 1) = Inl err) \<or>
           (\<exists>err. GetAllValidatorsPublicKeys env (GetEpoch hdr) = Inl err)"
  shows "EpochStartAction env hdr sr = sr"
  using assms by (auto simp: EpochStartAction_def changeEpoch_def split: sum.splits)

theorem epoch_fetch_error_keeps_state_witness:
  "GetAllValidatorsPublicKeys scenario_prev_fails (GetEpoch scenario_header - 1) =
     Inl (ErrCollaborator ''unknown epoch'') \<and>
   GetAllValidatorsPublicKeys scenario_prev_fails (GetEpoch scenario_header) =
     Inr [0 \<mapsto> [''bob'', ''carol'']] \<and>
   EpochStartAction scenario_prev_fails scenario_header scenario_sr = scenario_sr \<and>
   eligibleList (EpochStartAction scenario_prev_fails scenario_header scenario_sr) = {''alice''}"
proof -
  have p: "GetAllValidatorsPublicKeys scenario_prev_fails (GetEpoch scenario_header - 1) =
             Inl (ErrCollaborator ''unknown epoch'')"
    by (simp add: scenario_prev_fails_def scenario_env_def scenario_header_def)
  have n: "GetAllValidatorsPublicKeys scenario_prev_fails (GetEpoch scenario_header) =
             Inr [0 \<mapsto> [''bob'', ''carol'']]"
    by (simp add: scenario_prev_fails_def scenario_env_def scenario_header_def)
  from p have
    "(\<exists>err. GetAllValidatorsPublicKeys scenario_prev_fails (GetEpoch scenario_header - 1) = Inl err) \<or>
     (\<exists>err. GetAllValidatorsPublicKeys scenario_prev_fails (GetEpoch scenario_header) = Inl err)"
    by blast
  from epoch_fetch_error_keeps_state [OF this, of scenario_sr] p n
  show ?thesis by (simp add: scenario_sr_def)
qed

subsection \<open>Group derivation\<close>

text \<open>
  Claim C8. Whenever group derivation runs, the randomness seed handed to the validator
  selection is the seed of the current block header; when the chain has no current block
  header, it is the seed of the genesis header. (With neither header the derivation stops
  with \<open>ErrNilHeader\<close> before any selection.)
\<close>

theorem seed_from_current_header_else_genesis:
  "(GetCurrentBlockHeader env = Some h \<longrightarrow>
      calls (snd (generateNextConsensusGroup env roundIndex sr)) =
        calls sr @ [CallGetNextConsensusGroup (GetRandSeed h) (RoundIndex sr) (SelfId env)
                      (GetEpoch h)] \<and>
      fst (generateNextConsensusGroup env roundIndex sr) =
        (case GetNextConsensusGroup env (GetRandSeed h) (RoundIndex sr) (SelfId env) (GetEpoch h) of
           Inl err \<Rightarrow> Some err
         | Inr grp \<Rightarrow> None)) \<and>
   (GetCurrentBlockHeader env = None \<and> GetGenesisHeader env = Some g \<longrightarrow>
      calls (snd (generateNextConsensusGroup env roundIndex sr)) =
        calls sr @ [CallGetNextConsensusGroup (GetRandSeed g) (RoundIndex sr) (SelfId env)
                      (GetEpoch g)] \<and>
      fst (generateNextConsensusGroup env roundIndex sr) =
        (case GetNextConsensusGroup env (GetRandSeed g) (RoundIndex sr) (SelfId env) (GetEpoch g) of
           Inl err \<Rightarrow> Some err
         | Inr grp \<Rightarrow> None)) \<and>
   (GetCurrentBlockHeader env = None \<and> GetGenesisHeader env = None \<longrightarrow>
      generateNextConsensusGroup env roundIndex sr = (Some ErrNilHeader, sr))"
  by (simp add: gen_cases split: sum.split)

theorem seed_from_current_header_else_genesis_witness:
  "GetCurrentBlockHeader (scenario_env 0) = Some scenario_header \<and>
   calls (snd (generateNextConsensusGroup (scenario_env 0) 42 scenario_sr)) =
     [CallGetNextConsensusGroup ''seed of the current block'' 42 0 7] \<and>
   GetCurrentBlockHeader scenario_no_current = None \<and>
   GetGenesisHeader scenario_no_current = Some scenario_genesis \<and>
   calls (snd (generateNextConsensusGroup scenario_no_current 42 scenario_sr)) =
     [CallGetNextConsensusGroup ''seed of genesis'' 42 0 0]"
  using seed_from_current_header_else_genesis
          [where env = "scenario_env 0" and h = scenario_header and g = scenario_genesis
             and roundIndex = 42 and sr = scenario_sr]
        seed_from_current_header_else_genesis
          [where env = scenario_no_current and h = scenario_header and g = scenario_genesis
             and roundIndex = 42 and sr = scenario_sr]
  by (simp add: scenario_env_def scenario_no_current_def scenario_sr_def scenario_header_def
        scenario_genesis_def)

subsection \<open>Cancellation\<close>

text \<open>
  Claim C2. Within one round, once the cancellation flag is true, no operation of the start
  phase sets it back to false until the reset at the start of the next round: every run of
  operations other than \<open>Job\<close> (which is that reset, it clears the flag) ends with the
  flag still true. While the flag is true, the start phase's Check returns false at once
  and leaves the state as it is: no initialization work is done. Even \<open>initCurrentRound\<close>
  by itself, the one function that writes the flag, never returns with the flag cleared
  (and it does return when \<open>executeStoredMessages\<close> is not nil).
\<close>

theorem cancellation_is_monotonic:
  assumes "RoundCanceled sr" and "Job \<notin> snd ` set ops"
  shows "(\<exists>sr'. run ops sr = Some sr' \<and> RoundCanceled sr') \<and>
         doStartRoundConsensusCheck env sr = Some (False, sr) \<and>
         (\<forall>b sr'. initCurrentRound env sr = Some (b, sr') \<longrightarrow> RoundCanceled sr') \<and>
         (executeStoredMessages sr = Func \<longrightarrow>
            (\<exists>b sr'. initCurrentRound env sr = Some (b, sr') \<and> RoundCanceled sr')) \<and>
         \<not> RoundCanceled (snd (doStartRoundJob env sr))"
  using assms run_keeps_canceled [of sr ops] check_when_canceled [of sr env]
    init_total [of sr env] init_keeps_canceled [of sr env]
  by (auto simp: doStartRoundJob_def ResetConsensusState_def)

theorem cancellation_is_monotonic_witness:
  "RoundCanceled scenario_canceled \<and> Job \<notin> snd ` set scenario_ops \<and>
   (\<exists>sr'. run scenario_ops scenario_canceled = Some sr' \<and> RoundCanceled sr') \<and>
   doStartRoundConsensusCheck (scenario_env 0) scenario_canceled = Some (False, scenario_canceled)"
proof -
  have c: "RoundCanceled scenario_canceled"
    by (simp add: scenario_canceled_def)
  have j: "Job \<notin> snd ` set scenario_ops"
    by (simp add: scenario_ops_def)
  from cancellation_is_monotonic [OF c j, of "scenario_env 0"] c j show ?thesis by simp
qed

text \<open>
  Claim C5. When the validator selection returns an empty validator set, initialization
  cancels the round (the cancellation flag is true afterwards) and no reset of the multi
  signer is attempted: the log has no new reset call, and every later Check of the round
  returns false without doing anything.
\<close>

theorem empty_group_cancels_without_reset:
  assumes ns: "\<not> ShouldSync env"
    and hdr: "(case GetCurrentBlockHeader env of None \<Rightarrow> GetGenesisHeader env | Some h \<Rightarrow> Some h) = Some h"
    and empty: "GetNextConsensusGroup env (GetRandSeed h) (RoundIndex sr) (SelfId env) (GetEpoch h) = Inr []"
  shows "\<exists>sr'. initCurrentRound env sr = Some (False, sr') \<and>
           RoundCanceled sr' \<and>
           filter isMultiSignerReset (calls sr') = filter isMultiSignerReset (calls sr) \<and>
           (\<not> RoundCanceled sr \<and> \<not> IsSubroundFinished sr (current sr) \<longrightarrow>
              doStartRoundConsensusCheck env sr = Some (False, sr')) \<and>
           (\<forall>env'. doStartRoundConsensusCheck env' sr' = Some (False, sr'))"
  using init_empty_group [OF ns hdr empty] check_eq_init [of sr env]
  by (simp add: check_when_canceled)

theorem empty_group_cancels_without_reset_witness:
  "\<not> ShouldSync scenario_empty_group \<and>
   GetCurrentBlockHeader scenario_empty_group = Some scenario_header \<and>
   GetNextConsensusGroup scenario_empty_group (GetRandSeed scenario_header) (RoundIndex scenario_sr)
     (SelfId scenario_empty_group) (GetEpoch scenario_header) = Inr [] \<and>
   (\<exists>sr'. doStartRoundConsensusCheck scenario_empty_group scenario_sr = Some (False, sr') \<and>
          RoundCanceled sr' \<and> filter isMultiSignerReset (calls sr') = [])"
proof -
  have ns: "\<not> ShouldSync scenario_empty_group"
    by (simp add: scenario_empty_group_def scenario_env_def)
  have hdr: "(case GetCurrentBlockHeader scenario_empty_group of
                None \<Rightarrow> GetGenesisHeader scenario_empty_group | Some h \<Rightarrow> Some h) = Some scenario_header"
    by (simp add: scenario_empty_group_def scenario_env_def)
  have empty: "GetNextConsensusGroup scenario_empty_group (GetRandSeed scenario_header)
     (RoundIndex scenario_sr) (SelfId scenario_empty_group) (GetEpoch scenario_header) = Inr []"
    by (simp add: scenario_empty_group_def scenario_env_def)
  have st: "\<not> RoundCanceled scenario_sr" "\<not> IsSubroundFinished scenario_sr (current scenario_sr)"
       "calls scenario_sr = []"
    by (simp_all add: scenario_sr_def IsSubroundFinished_def)
  have cur: "GetCurrentBlockHeader scenario_empty_group = Some scenario_header"
    by (simp add: scenario_empty_group_def scenario_env_def)
  from empty_group_cancels_without_reset [OF ns hdr empty] ns cur empty st
  show ?thesis by auto
qed

subsection \<open>The time budget of the start phase\<close>

text \<open>
  Claim C1, as amended. The budget of the start phase is
  \<open>TimeDuration * processingThresholdPercentage / 100\<close> in \<open>int64\<close> arithmetic: whenever
  the product fits into 64 signed bits, it is that percentage of the round duration,
  rounded towards zero to whole nanoseconds (25 percent of 5 s are 1.25 s). When
  initialization reaches its end (the node is synchronized, the group is derived and not
  empty, the multi signer is reset), the remaining time is asked for the round's start
  time stamp and this budget: if it is negative, the cancellation flag is set and the
  phase is not marked finished; if it is not negative and the subround was constructed
  with an \<open>executeStoredMessages\<close> that is not nil, the phase is marked finished, the
  replay of the stored messages is spawned and the round is not canceled.
\<close>

theorem start_phase_budget_decides:
  assumes ns: "\<not> ShouldSync env"
    and nc: "\<not> RoundCanceled sr"
    and nf: "\<not> IsSubroundFinished sr (current sr)"
    and hdr: "(case GetCurrentBlockHeader env of None \<Rightarrow> GetGenesisHeader env | Some h \<Rightarrow> Some h) = Some h"
    and grp: "GetNextConsensusGroup env (GetRandSeed h) (RoundIndex sr) (SelfId env) (GetEpoch h) = Inr grp"
    and ne: "grp \<noteq> []"
    and reset: "MultiSignerReset env grp
                  (word_of_int (fst (SelfConsensusGroupIndex (notFoundIndex env)
                                       (sr\<lparr>consensusGroup := grp\<rparr>)))) = None"
    and budget: "budget = maxTime (TimeDuration env) (processingThresholdPercentage sr)"
  shows "(- (2 ^ 63) \<le> sint (TimeDuration env) * processingThresholdPercentage sr \<and>
          sint (TimeDuration env) * processingThresholdPercentage sr < 2 ^ 63 \<longrightarrow>
            sint budget = (sint (TimeDuration env) * processingThresholdPercentage sr) sdiv 100) \<and>
         (sint (RemainingTime env (RoundTimeStamp sr) budget) < 0 \<longrightarrow>
            (\<exists>sr'. doStartRoundConsensusCheck env sr = Some (False, sr') \<and>
                   initCurrentRound env sr = Some (False, sr') \<and>
                   RoundCanceled sr' \<and> \<not> IsSubroundFinished sr' (current sr') \<and>
                   last (calls sr') = CallRemainingTime (RoundTimeStamp sr) budget)) \<and>
         (0 \<le> sint (RemainingTime env (RoundTimeStamp sr) budget) \<and>
          executeStoredMessages sr = Func \<longrightarrow>
            (\<exists>sr'. doStartRoundConsensusCheck env sr = Some (True, sr') \<and>
                   initCurrentRound env sr = Some (True, sr') \<and>
                   \<not> RoundCanceled sr' \<and> IsSubroundFinished sr' (current sr') \<and>
                   CallRemainingTime (RoundTimeStamp sr) budget \<in> set (calls sr') \<and>
                   last (calls sr') = GoExecuteStoredMessages))"
proof -
  from init_reaches_reset [OF ns hdr grp ne refl] reset
  obtain S where S: "RoundTimeStamp S = RoundTimeStamp sr"
      "processingThresholdPercentage S = processingThresholdPercentage sr"
      "RoundCanceled S = RoundCanceled sr" "status S = status sr" "current S = current sr"
      "executeStoredMessages S = executeStoredMessages sr"
    and init: "initCurrentRound env sr = budgetCheck env S"
    by (metis (no_types, lifting) option.simps(4))
  have chk: "doStartRoundConsensusCheck env sr = initCurrentRound env sr"
    using nc nf by (rule check_eq_init)
  have late: "\<exists>sr'. initCurrentRound env sr = Some (False, sr') \<and>
                   RoundCanceled sr' \<and> \<not> IsSubroundFinished sr' (current sr') \<and>
                   last (calls sr') = CallRemainingTime (RoundTimeStamp sr) budget"
    if "sint (RemainingTime env (RoundTimeStamp sr) budget) < 0"
    using budgetCheck_timeout [of env S] that S nf
    by (simp add: init budget IsSubroundFinished_def)
  have ok: "\<exists>sr'. initCurrentRound env sr = Some (True, sr') \<and>
                   \<not> RoundCanceled sr' \<and> IsSubroundFinished sr' (current sr') \<and>
                   CallRemainingTime (RoundTimeStamp sr) budget \<in> set (calls sr') \<and>
                   last (calls sr') = GoExecuteStoredMessages"
    if "0 \<le> sint (RemainingTime env (RoundTimeStamp sr) budget)"
      and "executeStoredMessages sr = Func"
    using budgetCheck_in_time [of env S] that S nc
    by (simp add: init budget IsSubroundFinished_def)
  show ?thesis
    using late ok maxTime_in_range [of "TimeDuration env" "processingThresholdPercentage sr"]
    by (auto simp: chk budget)
qed

text \<open>
  Scenarios A and B of the spec: round 42 of 5 s with 25 percent, read 0.1 s and 1.3 s
  after the start of the round, on the clock \<open>elapsedRemainingTime\<close>.
\<close>

theorem start_phase_budget_decides_witness:
  "\<not> ShouldSync (scenario_env 1000100000000) \<and>
   executeStoredMessages scenario_sr = Func \<and>
   \<not> RoundCanceled scenario_sr \<and>
   \<not> IsSubroundFinished scenario_sr (current scenario_sr) \<and>
   sint (maxTime (TimeDuration (scenario_env 1000100000000))
           (processingThresholdPercentage scenario_sr)) = 1250000000 \<and>
   (\<exists>sr'. doStartRoundConsensusCheck (scenario_env 1000100000000) scenario_sr = Some (True, sr') \<and>
          \<not> RoundCanceled sr' \<and> IsSubroundFinished sr' (current sr')) \<and>
   (\<exists>sr'. doStartRoundConsensusCheck (scenario_env 1001300000000) scenario_sr = Some (False, sr') \<and>
          RoundCanceled sr' \<and> \<not> IsSubroundFinished sr' (current sr'))"
proof -
  let ?grp = "[''alice'', ''bob'', ''carol'']"
  let ?b = "maxTime 5000000000 25"
  have st: "\<not> RoundCanceled scenario_sr" "\<not> IsSubroundFinished scenario_sr (current scenario_sr)"
    by (simp_all add: scenario_defs IsSubroundFinished_def)
  have env: "\<not> ShouldSync (scenario_env t)"
    "(case GetCurrentBlockHeader (scenario_env t) of
        None \<Rightarrow> GetGenesisHeader (scenario_env t) | Some h \<Rightarrow> Some h) = Some scenario_header"
    "GetNextConsensusGroup (scenario_env t) (GetRandSeed scenario_header) (RoundIndex scenario_sr)
       (SelfId (scenario_env t)) (GetEpoch scenario_header) = Inr ?grp"
    "MultiSignerReset (scenario_env t) ?grp
        (word_of_int (fst (SelfConsensusGroupIndex (notFoundIndex (scenario_env t))
                             (scenario_sr\<lparr>consensusGroup := ?grp\<rparr>)))) = None"
    "?b = maxTime (TimeDuration (scenario_env t)) (processingThresholdPercentage scenario_sr)"
    for t
    by (simp_all add: scenario_defs)
  have ne: "?grp \<noteq> []" by simp
  note A = start_phase_budget_decides
             [OF env(1) st env(2) env(3) ne env(4) env(5), of 1000100000000]
  note B = start_phase_budget_decides
             [OF env(1) st env(2) env(3) ne env(4) env(5), of 1001300000000]
  have val: "sint ?b = 1250000000"
    by (simp add: maxTime_def int64_div_def)
  have remA: "0 \<le> sint (RemainingTime (scenario_env 1000100000000) (RoundTimeStamp scenario_sr) ?b)"
    by (simp add: scenario_defs elapsedRemainingTime_def maxTime_def int64_div_def)
  have remB: "sint (RemainingTime (scenario_env 1001300000000) (RoundTimeStamp scenario_sr) ?b) < 0"
    by (simp add: scenario_defs elapsedRemainingTime_def maxTime_def int64_div_def)
  have cb: "executeStoredMessages scenario_sr = Func"
    by (simp add: scenario_defs)
  from A remA cb have a: "\<exists>sr'. doStartRoundConsensusCheck (scenario_env 1000100000000) scenario_sr = Some (True, sr') \<and>
          \<not> RoundCanceled sr' \<and> IsSubroundFinished sr' (current sr')"
    by blast
  from B remB have b: "\<exists>sr'. doStartRoundConsensusCheck (scenario_env 1001300000000) scenario_sr = Some (False, sr') \<and>
          RoundCanceled sr' \<and> \<not> IsSubroundFinished sr' (current sr')"
    by blast
  have "TimeDuration (scenario_env 1000100000000) = 5000000000"
       "processingThresholdPercentage scenario_sr = 25"
    by (simp_all add: scenario_defs)
  with a b st env(1) val cb show ?thesis by simp
qed

text \<open>
  The claim as it was stated ("for every round the budget equals the percentage of the
  round duration") fails where the product leaves \<open>int64\<close>: for a round duration of
  \<open>4 * 10^17\<close> ns and 25 percent the product \<open>10^19\<close> wraps, and the budget is negative
  instead of \<open>10^17\<close> ns. The same happens for a round of 5 s with a configured
  percentage of \<open>2 * 10^9\<close>.
\<close>

theorem budget_wraps_counterexample:
  "sint (maxTime 400000000000000000 25) = - 84467440737095516 \<and>
   sint (maxTime 400000000000000000 25) \<noteq> (400000000000000000 * 25) div 100 \<and>
   sint (maxTime 5000000000 2000000000) = - 84467440737095516 \<and>
   sint (maxTime 5000000000 2000000000) \<noteq> (5000000000 * 2000000000) div 100"
  by (simp add: maxTime_def int64_div_def)

subsection \<open>Membership and the reset of the multi signer\<close>

text \<open>
  Claim C9. On a subround constructed with an \<open>executeStoredMessages\<close> that is not nil:
  when group derivation and leader lookup succeed and the local validator is not a member
  of the derived group, the failed membership lookup does not cancel the round:
  initialization goes on to the reset of the multi signer, the state metric says
  "not in consensus group", and the cancellation flag afterwards is set only if it was set
  before, or the reset fails, or the time budget is exceeded. With a successful reset
  within the budget the initialization succeeds.
\<close>

theorem observer_round_not_canceled:
  assumes ns: "\<not> ShouldSync env"
    and hdr: "(case GetCurrentBlockHeader env of None \<Rightarrow> GetGenesisHeader env | Some h \<Rightarrow> Some h) = Some h"
    and grp: "GetNextConsensusGroup env (GetRandSeed h) (RoundIndex sr) (SelfId env) (GetEpoch h) = Inr grp"
    and ne: "grp \<noteq> []"
    and notin: "selfPubKey sr \<notin> set grp"
    and rem: "rem = sint (RemainingTime env (RoundTimeStamp sr)
                            (maxTime (TimeDuration env) (processingThresholdPercentage sr)))"
    and cb: "executeStoredMessages sr = Func"
  shows "snd (SelfConsensusGroupIndex (notFoundIndex env) (sr\<lparr>consensusGroup := grp\<rparr>)) =
           Some ErrNotFoundInConsensus \<and>
         (\<exists>b sr'. initCurrentRound env sr = Some (b, sr') \<and>
            stringValues sr' MetricConsensusState = ''not in consensus group'' \<and>
            CallMultiSignerReset grp (word_of_int (notFoundIndex env)) \<in> set (calls sr') \<and>
            (RoundCanceled sr' \<longleftrightarrow>
               RoundCanceled sr \<or>
               MultiSignerReset env grp (word_of_int (notFoundIndex env)) \<noteq> None \<or> rem < 0) \<and>
            (b \<longleftrightarrow> MultiSignerReset env grp (word_of_int (notFoundIndex env)) = None \<and> 0 \<le> rem))"
proof -
  note si = self_index_not_member [OF notin, of "notFoundIndex env"]
  have idx: "word_of_int (notFoundIndex env) =
      (word_of_int (fst (SelfConsensusGroupIndex (notFoundIndex env) (sr\<lparr>consensusGroup := grp\<rparr>))) :: uint16)"
    by (simp add: si)
  show ?thesis
    by (rule init_outcome [OF ns hdr grp ne idx rem disjI1 [OF cb]]) (use notin si in auto)
qed

theorem observer_round_not_canceled_witness:
  "\<not> ShouldSync (scenario_env 1000100000000) \<and>
   executeStoredMessages scenario_observer = Func \<and>
   selfPubKey scenario_observer \<notin> set [''alice'', ''bob'', ''carol''] \<and>
   (\<exists>sr'. initCurrentRound (scenario_env 1000100000000) scenario_observer = Some (True, sr') \<and>
      stringValues sr' MetricConsensusState = ''not in consensus group'' \<and>
      CallMultiSignerReset [''alice'', ''bob'', ''carol''] 0 \<in> set (calls sr') \<and>
      \<not> RoundCanceled sr')"
proof -
  let ?env = "scenario_env 1000100000000"
  let ?grp = "[''alice'', ''bob'', ''carol'']"
  have ns: "\<not> ShouldSync ?env"
    by (simp add: scenario_defs)
  have hdr: "(case GetCurrentBlockHeader ?env of
        None \<Rightarrow> GetGenesisHeader ?env | Some h \<Rightarrow> Some h) = Some scenario_header"
    by (simp add: scenario_defs)
  have grp: "GetNextConsensusGroup ?env (GetRandSeed scenario_header) (RoundIndex scenario_observer)
       (SelfId ?env) (GetEpoch scenario_header) = Inr ?grp"
    by (simp add: scenario_defs)
  have ne: "?grp \<noteq> []" by simp
  have notin: "selfPubKey scenario_observer \<notin> set ?grp"
    by (simp add: scenario_observer_def scenario_defs)
  have rem: "0 \<le> sint (RemainingTime ?env (RoundTimeStamp scenario_observer)
                            (maxTime (TimeDuration ?env) (processingThresholdPercentage scenario_observer)))"
    by (simp add: scenario_observer_def scenario_defs elapsedRemainingTime_def maxTime_def int64_div_def)
  have facts: "MultiSignerReset ?env ?grp (word_of_int (notFoundIndex ?env)) = None"
    "\<not> RoundCanceled scenario_observer" "(word_of_int (notFoundIndex ?env) :: uint16) = 0"
    by (simp_all add: scenario_observer_def scenario_defs)
  have cb: "executeStoredMessages scenario_observer = Func"
    by (simp add: scenario_observer_def scenario_defs)
  from observer_round_not_canceled [OF ns hdr grp ne notin refl cb] rem facts ns notin cb
  show ?thesis by auto
qed

text \<open>
  Claim C10. On a subround constructed with an \<open>executeStoredMessages\<close> that is not nil:
  on every initialization in which group derivation and leader lookup succeed, the multi
  signer's \<open>Reset\<close> is called exactly once, with the whole group and
  \<open>uint16(selfIndex)\<close>. For a member, \<open>selfIndex\<close> is its position in the group; for a
  validator outside the group it is the integer that the failed lookup returned. If
  \<open>Reset\<close> returns an error, the round is canceled.
\<close>

theorem multi_signer_reset_once:
  assumes ns: "\<not> ShouldSync env"
    and hdr: "(case GetCurrentBlockHeader env of None \<Rightarrow> GetGenesisHeader env | Some h \<Rightarrow> Some h) = Some h"
    and grp: "GetNextConsensusGroup env (GetRandSeed h) (RoundIndex sr) (SelfId env) (GetEpoch h) = Inr grp"
    and ne: "grp \<noteq> []"
    and idx: "selfIndex = fst (SelfConsensusGroupIndex (notFoundIndex env) (sr\<lparr>consensusGroup := grp\<rparr>))"
    and cb: "executeStoredMessages sr = Func"
  shows "(selfPubKey sr \<notin> set grp \<longrightarrow> selfIndex = notFoundIndex env) \<and>
         (selfPubKey sr \<in> set grp \<longrightarrow>
            0 \<le> selfIndex \<and> nat selfIndex < length grp \<and> grp ! nat selfIndex = selfPubKey sr) \<and>
         (\<exists>b sr'. initCurrentRound env sr = Some (b, sr') \<and>
            filter isMultiSignerReset (calls sr') =
              filter isMultiSignerReset (calls sr) @
                [CallMultiSignerReset grp (word_of_int selfIndex)] \<and>
            (MultiSignerReset env grp (word_of_int selfIndex) \<noteq> None \<longrightarrow>
               \<not> b \<and> RoundCanceled sr'))"
proof -
  have a: "selfIndex = notFoundIndex env" if "selfPubKey sr \<notin> set grp"
    using self_index_not_member [OF that, of "notFoundIndex env"] by (simp add: idx)
  have b: "0 \<le> selfIndex \<and> nat selfIndex < length grp \<and> grp ! nat selfIndex = selfPubKey sr"
    if "selfPubKey sr \<in> set grp"
    using self_index_member [OF that, of "notFoundIndex env"] by (auto simp: idx)
  have idx': "(word_of_int selfIndex :: uint16) =
      word_of_int (fst (SelfConsensusGroupIndex (notFoundIndex env) (sr\<lparr>consensusGroup := grp\<rparr>)))"
    by (simp add: idx)
  have c: "\<exists>b sr'. initCurrentRound env sr = Some (b, sr') \<and>
            filter isMultiSignerReset (calls sr') =
              filter isMultiSignerReset (calls sr) @
                [CallMultiSignerReset grp (word_of_int selfIndex)] \<and>
            (MultiSignerReset env grp (word_of_int selfIndex) \<noteq> None \<longrightarrow>
               \<not> b \<and> RoundCanceled sr')"
    by (rule init_outcome [OF ns hdr grp ne idx' refl disjI1 [OF cb]]) auto
  from a b c show ?thesis by blast
qed

theorem multi_signer_reset_once_witness:
  "\<not> ShouldSync (scenario_env 1000100000000) \<and>
   executeStoredMessages scenario_sr = Func \<and>
   fst (SelfConsensusGroupIndex (notFoundIndex (scenario_env 1000100000000))
          (scenario_sr\<lparr>consensusGroup := [''alice'', ''bob'', ''carol'']\<rparr>)) = 1 \<and>
   (\<exists>b sr'. initCurrentRound (scenario_env 1000100000000) scenario_sr = Some (b, sr') \<and>
      filter isMultiSignerReset (calls sr') =
        [CallMultiSignerReset [''alice'', ''bob'', ''carol''] 1])"
proof -
  let ?env = "scenario_env 1000100000000"
  let ?grp = "[''alice'', ''bob'', ''carol'']"
  have ns: "\<not> ShouldSync ?env"
    by (simp add: scenario_defs)
  have hdr: "(case GetCurrentBlockHeader ?env of
        None \<Rightarrow> GetGenesisHeader ?env | Some h \<Rightarrow> Some h) = Some scenario_header"
    by (simp add: scenario_defs)
  have grp: "GetNextConsensusGroup ?env (GetRandSeed scenario_header) (RoundIndex scenario_sr)
       (SelfId ?env) (GetEpoch scenario_header) = Inr ?grp"
    by (simp add: scenario_defs)
  have ne: "?grp \<noteq> []" by simp
  have idx: "1 = fst (SelfConsensusGroupIndex (notFoundIndex ?env)
          (scenario_sr\<lparr>consensusGroup := ?grp\<rparr>))"
    by (simp add: scenario_defs SelfConsensusGroupIndex_def)
  have cb: "executeStoredMessages scenario_sr = Func"
    by (simp add: scenario_defs)
  have "calls scenario_sr = []"
    by (simp add: scenario_defs)
  with multi_signer_reset_once [OF ns hdr grp ne idx cb] ns idx cb
  show ?thesis by auto
qed

subsection \<open>Round indexing\<close>

text \<open>
  Claim C7. While no real indexer is installed (the indexer is nil or answers true to
  \<open>IsNilIndexer\<close>, as the default installed by the constructor does), the indexing step
  spawns no \<open>SaveRoundInfo\<close>: \<open>indexRoundIfNeeded\<close> returns with the state untouched; no
  run of operations that installs no real indexer logs a \<open>SaveRoundInfo\<close>, whatever state
  it returns; and on a subround constructed with an \<open>executeStoredMessages\<close> that is not
  nil every such run does return.
\<close>

theorem no_real_indexer_never_saves:
  assumes nri: "noRealIndexer sr"
    and ops: "\<forall>(env, op) \<in> set ops. \<forall>ix. op = InstallIndexer (Some ix) \<longrightarrow> IsNilIndexer ix"
  shows "indexRoundIfNeeded env pubKeys sr = Some sr \<and>
         (\<forall>sr'. run ops sr = Some sr' \<longrightarrow>
            filter isSaveRoundInfo (calls sr') = filter isSaveRoundInfo (calls sr) \<and>
            noRealIndexer sr') \<and>
         (executeStoredMessages sr = Func \<longrightarrow>
            (\<exists>sr'. run ops sr = Some sr' \<and>
               filter isSaveRoundInfo (calls sr') = filter isSaveRoundInfo (calls sr) \<and>
               noRealIndexer sr')) \<and>
         (case NewSubroundStartRound baseSubround validation extendFn pct executeStoredMessagesFn of
            Inl err \<Rightarrow> True
          | Inr sr0 \<Rightarrow> indexer sr0 = Some NewNilIndexer \<and> noRealIndexer sr0)"
proof -
  have a: "indexRoundIfNeeded env pubKeys sr = Some sr"
    using nri by (auto simp: indexRoundIfNeeded_def noRealIndexer_def split: option.splits)
  have b: "filter isSaveRoundInfo (calls sr') = filter isSaveRoundInfo (calls sr) \<and>
           noRealIndexer sr'"
    if "run ops sr = Some sr'" for sr'
    using run_no_save [OF that nri ops] .
  have c: "(case NewSubroundStartRound baseSubround validation extendFn pct executeStoredMessagesFn of
            Inl err \<Rightarrow> True
          | Inr sr0 \<Rightarrow> indexer sr0 = Some NewNilIndexer \<and> noRealIndexer sr0)"
    by (simp add: NewSubroundStartRound_def noRealIndexer_def NewNilIndexer_def
          Subround.defs subroundStartRound.defs split: option.split)
  from a b c run_total [OF _ ops, of sr] show ?thesis by blast
qed

text \<open>
  The constructor builds the state of the concrete round from its base subround, and one
  whole round on it, with an epoch start, logs no \<open>SaveRoundInfo\<close>.
\<close>

theorem no_real_indexer_never_saves_witness:
  "NewSubroundStartRound (Some scenario_base) None Func 25 Func = Inr scenario_sr \<and>
   indexer scenario_sr = Some NewNilIndexer \<and>
   noRealIndexer scenario_sr \<and>
   executeStoredMessages scenario_sr = Func \<and>
   indexRoundIfNeeded (scenario_env 0) [''alice'', ''bob'', ''carol''] scenario_sr = Some scenario_sr \<and>
   (\<exists>sr'. run scenario_round scenario_sr = Some sr' \<and> filter isSaveRoundInfo (calls sr') = [])"
proof -
  have new: "NewSubroundStartRound (Some scenario_base) None Func 25 Func = Inr scenario_sr"
    by (simp add: NewSubroundStartRound_def checkNewSubroundStartRoundParams_def scenario_base_def
          scenario_sr_def Subround.defs subroundStartRound.defs)
  have nri: "noRealIndexer scenario_sr"
    by (simp add: noRealIndexer_def scenario_defs NewNilIndexer_def)
  have ops: "\<forall>(env, op) \<in> set scenario_round. \<forall>ix. op = InstallIndexer (Some ix) \<longrightarrow> IsNilIndexer ix"
    by (simp add: scenario_round_def NewNilIndexer_def)
  have st: "calls scenario_sr = []" "executeStoredMessages scenario_sr = Func"
    "indexer scenario_sr = Some NewNilIndexer"
    by (simp_all add: scenario_defs)
  from no_real_indexer_never_saves
         [OF nri ops, of "scenario_env 0" "[''alice'', ''bob'', ''carol'']"
            "Some scenario_base" None Func 25 Func]
    new nri st
  show ?thesis by auto
qed

subsection \<open>What Job does and what Check does\<close>

text \<open>
  Claim C6, as amended. The Job of the start phase only resets the consensus state and
  stores the round index and the round time stamp of the clock; it derives no group and
  checks no budget, and it calls no collaborator that the log records. Group derivation
  and the budget check are done by the Check of the start phase, through
  \<open>initCurrentRound\<close>. On a subround constructed with an \<open>executeStoredMessages\<close> that is
  not nil, the first Check after the Job, on a synchronized node whose chain has a header,
  calls the validator selection with the seed and epoch of that header and the round index
  the Job stored, and stores the group the selection returns; once the group is not empty
  and the multi signer is reset, it asks the remaining time for the time stamp the Job
  stored and the budget. The collaborators may answer differently at the Job and at the
  Check.
\<close>

theorem job_resets_check_initialises:
  assumes job: "doStartRoundJob envJ sr = (done, sr0)"
    and cb: "executeStoredMessages sr = Func"
    and ns: "\<not> ShouldSync envC"
    and hdr: "(case GetCurrentBlockHeader envC of None \<Rightarrow> GetGenesisHeader envC | Some h \<Rightarrow> Some h) = Some h"
  shows "done \<and> calls sr0 = calls sr \<and> consensusGroup sr0 = [] \<and> \<not> RoundCanceled sr0 \<and>
         RoundIndex sr0 = RounderIndex envJ \<and> RoundTimeStamp sr0 = RounderTimeStamp envJ \<and>
         (\<exists>b sr'. doStartRoundConsensusCheck envC sr0 = Some (b, sr') \<and>
            CallGetNextConsensusGroup (GetRandSeed h) (RounderIndex envJ) (SelfId envC) (GetEpoch h)
              \<in> set (calls sr') \<and>
            (\<forall>grp. GetNextConsensusGroup envC (GetRandSeed h) (RounderIndex envJ) (SelfId envC)
                      (GetEpoch h) = Inr grp \<longrightarrow>
               consensusGroup sr' = grp \<and>
               (grp \<noteq> [] \<and>
                MultiSignerReset envC grp
                  (word_of_int (fst (SelfConsensusGroupIndex (notFoundIndex envC)
                                       (sr\<lparr>consensusGroup := grp\<rparr>)))) = None \<longrightarrow>
                  CallRemainingTime (RounderTimeStamp envJ)
                      (maxTime (TimeDuration envC) (processingThresholdPercentage sr))
                    \<in> set (calls sr'))))"
proof -
  have sr0: "sr0 = snd (doStartRoundJob envJ sr)" and d: "done = fst (doStartRoundJob envJ sr)"
    by (simp_all add: job)
  note f = job_frame [of envJ sr, folded sr0 d]
  have cb0: "executeStoredMessages sr0 = Func"
    using cb by (simp add: f)
  have idx: "(word_of_int (fst (SelfConsensusGroupIndex (notFoundIndex envC) (sr\<lparr>consensusGroup := grp\<rparr>))) :: uint16) =
      word_of_int (fst (SelfConsensusGroupIndex (notFoundIndex envC) (sr0\<lparr>consensusGroup := grp\<rparr>)))"
    for grp
    by (simp add: SelfConsensusGroupIndex_def f)
  have chk: "doStartRoundConsensusCheck envC sr0 = initCurrentRound envC sr0"
    using f by (simp add: check_eq_init)
  let ?get = "CallGetNextConsensusGroup (GetRandSeed h) (RounderIndex envJ) (SelfId envC) (GetEpoch h)"
  let ?P = "\<lambda>sr'. ?get \<in> set (calls sr') \<and>
            (\<forall>grp. GetNextConsensusGroup envC (GetRandSeed h) (RounderIndex envJ) (SelfId envC)
                      (GetEpoch h) = Inr grp \<longrightarrow>
               consensusGroup sr' = grp \<and>
               (grp \<noteq> [] \<and>
                MultiSignerReset envC grp
                  (word_of_int (fst (SelfConsensusGroupIndex (notFoundIndex envC)
                                       (sr\<lparr>consensusGroup := grp\<rparr>)))) = None \<longrightarrow>
                  CallRemainingTime (RounderTimeStamp envJ)
                      (maxTime (TimeDuration envC) (processingThresholdPercentage sr))
                    \<in> set (calls sr')))"
  have "\<exists>b sr'. initCurrentRound envC sr0 = Some (b, sr') \<and> ?P sr'"
  proof (cases rule: init_cases [of envC sr0])
    case sync
    with ns show ?thesis by simp
  next
    case no_header
    with hdr show ?thesis by simp
  next
    case (selection_error h' err)
    with hdr f show ?thesis by auto
  next
    case (empty_group h')
    with hdr f show ?thesis by auto
  next
    case (derived h' grp)
    from derived(2) hdr have h': "h' = h" by simp
    note g = derived(3) [unfolded h']
    show ?thesis
      by (rule init_outcome [OF ns hdr g derived(4) idx refl disjI1 [OF cb0]])
         (use g f in auto)
  qed
  with f chk show ?thesis by simp
qed

text \<open>
  The Job on the state that a canceled round 41 left behind, then the Check one tenth of
  a second later.
\<close>

theorem job_resets_check_initialises_witness:
  "doStartRoundJob (scenario_env 1000000000000) scenario_previous = (True, scenario_sr) \<and>
   RoundCanceled scenario_previous \<and>
   consensusGroup scenario_previous = [''carol'', ''dave''] \<and>
   RoundIndex scenario_previous = 41 \<and>
   executeStoredMessages scenario_previous = Func \<and>
   \<not> ShouldSync (scenario_env 1000100000000) \<and>
   \<not> RoundCanceled scenario_sr \<and> consensusGroup scenario_sr = [] \<and> RoundIndex scenario_sr = 42 \<and>
   calls scenario_sr = calls scenario_previous \<and>
   (\<exists>b sr'. doStartRoundConsensusCheck (scenario_env 1000100000000) scenario_sr = Some (b, sr') \<and>
      consensusGroup sr' = [''alice'', ''bob'', ''carol''] \<and>
      CallGetNextConsensusGroup ''seed of the current block'' 42 0 7 \<in> set (calls sr') \<and>
      CallRemainingTime 1000000000000 (maxTime 5000000000 25) \<in> set (calls sr'))"
proof -
  let ?envJ = "scenario_env 1000000000000"
  let ?envC = "scenario_env 1000100000000"
  let ?grp = "[''alice'', ''bob'', ''carol'']"
  have job: "doStartRoundJob ?envJ scenario_previous = (True, scenario_sr)"
    by (simp add: doStartRoundJob_def ResetConsensusState_def scenario_previous_def scenario_defs)
  have cb: "executeStoredMessages scenario_previous = Func"
    by (simp add: scenario_previous_def scenario_defs)
  have ns: "\<not> ShouldSync ?envC"
    by (simp add: scenario_defs)
  have hdr: "(case GetCurrentBlockHeader ?envC of
        None \<Rightarrow> GetGenesisHeader ?envC | Some h \<Rightarrow> Some h) = Some scenario_header"
    by (simp add: scenario_defs)
  have grp: "GetNextConsensusGroup ?envC (GetRandSeed scenario_header) (RounderIndex ?envJ)
       (SelfId ?envC) (GetEpoch scenario_header) = Inr ?grp"
    by (simp add: scenario_defs)
  have reset: "MultiSignerReset ?envC ?grp
        (word_of_int (fst (SelfConsensusGroupIndex (notFoundIndex ?envC)
                             (scenario_previous\<lparr>consensusGroup := ?grp\<rparr>)))) = None"
    by (simp add: scenario_defs)
  have vals: "GetRandSeed scenario_header = ''seed of the current block''"
    "GetEpoch scenario_header = 7" "RounderIndex ?envJ = 42" "SelfId ?envC = 0"
    "RounderTimeStamp ?envJ = 1000000000000" "TimeDuration ?envC = 5000000000"
    "processingThresholdPercentage scenario_previous = 25"
    by (simp_all add: scenario_previous_def scenario_defs)
  have prev: "RoundCanceled scenario_previous"
    "consensusGroup scenario_previous = [''carol'', ''dave'']"
    "RoundIndex scenario_previous = 41"
    by (simp_all add: scenario_previous_def scenario_defs)
  from job_resets_check_initialises [OF job cb ns hdr]
  obtain b sr' where r: "doStartRoundConsensusCheck ?envC scenario_sr = Some (b, sr')"
    "CallGetNextConsensusGroup (GetRandSeed scenario_header) (RounderIndex ?envJ) (SelfId ?envC)
       (GetEpoch scenario_header) \<in> set (calls sr')"
    "consensusGroup sr' = ?grp"
    "CallRemainingTime (RounderTimeStamp ?envJ)
        (maxTime (TimeDuration ?envC) (processingThresholdPercentage scenario_previous))
       \<in> set (calls sr')"
    and j: "\<not> RoundCanceled scenario_sr" "consensusGroup scenario_sr = []"
      "RoundIndex scenario_sr = RounderIndex ?envJ" "calls scenario_sr = calls scenario_previous"
    using grp reset by auto
  from r j job cb ns prev show ?thesis unfolding vals by blast
qed

text \<open>
  The claim as it was stated ("invoking the Job carries out consensus-group derivation and
  the budget check") fails: in the concrete round the selection would answer with three
  validators, yet after the Job the group is empty and the log has neither a selection
  call nor a remaining-time query.
\<close>

theorem job_derives_nothing_counterexample:
  "GetNextConsensusGroup (scenario_env 1000000000000) (GetRandSeed scenario_header) 42 0 7 =
     Inr [''alice'', ''bob'', ''carol''] \<and>
   doStartRoundJob (scenario_env 1000000000000) scenario_sr = (True, scenario_sr) \<and>
   consensusGroup (snd (doStartRoundJob (scenario_env 1000000000000) scenario_sr)) = [] \<and>
   calls (snd (doStartRoundJob (scenario_env 1000000000000) scenario_sr)) = []"
  by (simp add: doStartRoundJob_def ResetConsensusState_def scenario_defs)

end
